theory Spec2Isabelle
  imports Complex_Main
begin

section \<open>Errors as values\<close>

text \<open>
  The Python sources raise exceptions; here every function that can raise returns a
  sum, with the exception on the left. Only the exception classes that the modelled
  code can reach are listed.
\<close>

datatype py_error =
  IndexError | ValueError | TypeError | AttributeError | InvalidArgumentError | FileNotFoundError

type_synonym 'a result = "py_error + 'a"

definition bindE :: "'a result \<Rightarrow> ('a \<Rightarrow> 'b result) \<Rightarrow> 'b result" where
  "bindE m f = (case m of Inl e \<Rightarrow> Inl e | Inr v \<Rightarrow> f v)"

primrec mapE :: "('a \<Rightarrow> 'b result) \<Rightarrow> 'a list \<Rightarrow> 'b list result" where
  "mapE f [] = Inr []"
| "mapE f (x # xs) = bindE (f x) (\<lambda>y. bindE (mapE f xs) (\<lambda>ys. Inr (y # ys)))"

text \<open>Python indexing of a sequence of length \<open>n\<close>: negative indices count from the end.\<close>

definition py_index :: "nat \<Rightarrow> int \<Rightarrow> nat result" where
  "py_index n i =
     (let j = (if i < 0 then int n + i else i)
      in if 0 \<le> j \<and> j < int n then Inr (nat j) else Inl IndexError)"

section \<open>Arrays and floating-point results (numpy)\<close>

text \<open>
  An array is its shape and its elements in row-major order; a well-formed array has
  as many elements as the product of its shape. The samples of an input array are
  finite and modelled as real numbers; a computed value is a real number, an infinity
  or \<open>nan\<close>. A true division returns \<open>inf\<close>, \<open>-inf\<close> or \<open>nan\<close> when the divisor is zero
  (numpy warns and does not raise), and these values propagate. The operations
  \<open>np_add\<close>, \<open>np_mul\<close> and \<open>np_div\<close> are exact on finite operands; the energy functions
  use the rounded operations of the next subsection, which overflow, and the phase
  error is modelled with the exact ones.
\<close>

record 'a ndarray =
  np_shape :: "nat list"
  np_data :: "'a list"

definition np_valid :: "'a ndarray \<Rightarrow> bool" where
  "np_valid a = (length (np_data a) = prod_list (np_shape a))"

datatype npfloat = Fin real | PInf | NInf | NaN

fun np_neg :: "npfloat \<Rightarrow> npfloat" where
  "np_neg (Fin a) = Fin (- a)"
| "np_neg PInf = NInf"
| "np_neg NInf = PInf"
| "np_neg NaN = NaN"

fun np_add :: "npfloat \<Rightarrow> npfloat \<Rightarrow> npfloat" where
  "np_add (Fin a) (Fin b) = Fin (a + b)"
| "np_add NaN _ = NaN"
| "np_add _ NaN = NaN"
| "np_add PInf NInf = NaN"
| "np_add NInf PInf = NaN"
| "np_add PInf _ = PInf"
| "np_add _ PInf = PInf"
| "np_add NInf _ = NInf"
| "np_add _ NInf = NInf"

definition np_sub :: "npfloat \<Rightarrow> npfloat \<Rightarrow> npfloat" where
  "np_sub a b = np_add a (np_neg b)"

definition inf_of_sign :: "real \<Rightarrow> npfloat" where
  "inf_of_sign s = (if s > 0 then PInf else if s < 0 then NInf else NaN)"

fun np_mul :: "npfloat \<Rightarrow> npfloat \<Rightarrow> npfloat" where
  "np_mul (Fin a) (Fin b) = Fin (a * b)"
| "np_mul NaN _ = NaN"
| "np_mul _ NaN = NaN"
| "np_mul PInf (Fin b) = inf_of_sign b"
| "np_mul NInf (Fin b) = inf_of_sign (- b)"
| "np_mul (Fin a) PInf = inf_of_sign a"
| "np_mul (Fin a) NInf = inf_of_sign (- a)"
| "np_mul PInf PInf = PInf"
| "np_mul NInf NInf = PInf"
| "np_mul PInf NInf = NInf"
| "np_mul NInf PInf = NInf"

text \<open>
  True division. A finite value divided by zero is \<open>inf\<close> with the sign of the dividend,
  and \<open>nan\<close> when the dividend is zero too. The sign of a zero is not modelled: every
  zero divisor of the modelled code is a non-negative count or index.
\<close>

fun np_div :: "npfloat \<Rightarrow> npfloat \<Rightarrow> npfloat" where
  "np_div (Fin a) (Fin b) = (if b \<noteq> 0 then Fin (a / b) else inf_of_sign a)"
| "np_div NaN _ = NaN"
| "np_div _ NaN = NaN"
| "np_div (Fin a) _ = Fin 0"
| "np_div PInf (Fin b) = (if b \<ge> 0 then PInf else NInf)"
| "np_div NInf (Fin b) = (if b \<ge> 0 then NInf else PInf)"
| "np_div _ _ = NaN"

subsection \<open>Rounded arithmetic\<close>

text \<open>
  The energy functions are modelled with the rounding and the overflow of binary
  floating-point arithmetic. A format is its precision (the number of significand
  bits) and the exponent \<open>emax\<close> at which it overflows: every finite value is below
  \<open>2 ^ emax\<close> in magnitude, and the least normal exponent is \<open>2 - emax\<close>. \<open>round_to\<close>
  rounds a real number to the nearest value of the format, ties to the even
  significand: the unit in the last place is fixed by the binade of the number (by the
  least normal exponent for subnormal numbers, which may round to 0), and a number that
  rounds to \<open>2 ^ emax\<close> or more becomes an infinity. An operation of the format returns
  the rounded exact result; infinities and \<open>nan\<close> pass through.
\<close>

record float_format =
  precision :: nat
  emax :: int

definition binary64 :: float_format where
  "binary64 = \<lparr>precision = 53, emax = 1024\<rparr>"

definition binary32 :: float_format where
  "binary32 = \<lparr>precision = 24, emax = 128\<rparr>"

definition round_half_even :: "real \<Rightarrow> int" where
  "round_half_even q =
     (let f = \<lfloor>q\<rfloor>; d = q - of_int f
      in if d < 1 / 2 then f else if 1 / 2 < d then f + 1 else if even f then f else f + 1)"

definition round_to :: "float_format \<Rightarrow> real \<Rightarrow> npfloat" where
  "round_to fmt x =
     (if x = 0 then Fin 0
      else
        let e = max \<lfloor>log 2 \<bar>x\<bar>\<rfloor> (2 - emax fmt);
            ulp = 2 powr of_int (e - (int (precision fmt) - 1));
            r = of_int (round_half_even (\<bar>x\<bar> / ulp)) * ulp
        in if 2 powr of_int (emax fmt) \<le> r then inf_of_sign x else Fin (sgn x * r))"

fun fl :: "float_format \<Rightarrow> npfloat \<Rightarrow> npfloat" where
  "fl fmt (Fin r) = round_to fmt r"
| "fl fmt v = v"

definition fl_add :: "float_format \<Rightarrow> npfloat \<Rightarrow> npfloat \<Rightarrow> npfloat" where
  "fl_add fmt a b = fl fmt (np_add a b)"

definition fl_sub :: "float_format \<Rightarrow> npfloat \<Rightarrow> npfloat \<Rightarrow> npfloat" where
  "fl_sub fmt a b = fl fmt (np_sub a b)"

definition fl_mul :: "float_format \<Rightarrow> npfloat \<Rightarrow> npfloat \<Rightarrow> npfloat" where
  "fl_mul fmt a b = fl fmt (np_mul a b)"

definition fl_div :: "float_format \<Rightarrow> npfloat \<Rightarrow> npfloat \<Rightarrow> npfloat" where
  "fl_div fmt a b = fl fmt (np_div a b)"

subsection \<open>Indexing\<close>

text \<open>\<open>x[t]\<close>: an integer index into the first axis.\<close>

definition np_getitem :: "'a ndarray \<Rightarrow> int \<Rightarrow> 'a ndarray result" where
  "np_getitem x t =
     (case np_shape x of
        [] \<Rightarrow> Inl IndexError
      | n # rest \<Rightarrow>
          bindE (py_index n t) (\<lambda>j.
            Inr \<lparr>np_shape = rest,
                 np_data = take (prod_list rest) (drop (j * prod_list rest) (np_data x))\<rparr>))"

text \<open>\<open>x[:, c]\<close>: the whole first axis, an integer index into the second.\<close>

definition np_column :: "'a ndarray \<Rightarrow> int \<Rightarrow> 'a ndarray result" where
  "np_column x c =
     (case np_shape x of
        n # m # rest \<Rightarrow>
          bindE (py_index m c) (\<lambda>j.
            Inr \<lparr>np_shape = n # rest,
                 np_data = concat (map (\<lambda>r. take (prod_list rest)
                             (drop ((r * m + j) * prod_list rest) (np_data x))) [0..<n])\<rparr>)
      | _ \<Rightarrow> Inl IndexError)"

subsection \<open>Element-wise operations with broadcasting\<close>

text \<open>
  Shapes are aligned at their last axes; two extents are compatible when they are
  equal or one of them is 1. The functions below work on reversed shapes.
\<close>

fun bc_rev :: "nat list \<Rightarrow> nat list \<Rightarrow> nat list option" where
  "bc_rev [] ys = Some ys"
| "bc_rev xs [] = Some xs"
| "bc_rev (x # xs) (y # ys) =
     (if x = y \<or> y = 1 then map_option ((#) x) (bc_rev xs ys)
      else if x = 1 then map_option ((#) y) (bc_rev xs ys)
      else None)"

definition broadcast_shape :: "nat list \<Rightarrow> nat list \<Rightarrow> nat list option" where
  "broadcast_shape s1 s2 = map_option rev (bc_rev (rev s1) (rev s2))"

primrec all_indices :: "nat list \<Rightarrow> nat list list" where
  "all_indices [] = [[]]"
| "all_indices (n # ns) = concat (map (\<lambda>i. map ((#) i) (all_indices ns)) [0..<n])"

fun offset_rev :: "nat list \<Rightarrow> nat list \<Rightarrow> nat" where
  "offset_rev (n # ns) (i # js) = (if n = 1 then 0 else i) + n * offset_rev ns js"
| "offset_rev _ _ = 0"

definition broadcast_data :: "nat list \<Rightarrow> nat list \<Rightarrow> 'a list \<Rightarrow> 'a list" where
  "broadcast_data r s d =
     (if r = s then d
      else map (\<lambda>idx. d ! offset_rev (rev s) (rev idx)) (all_indices r))"

definition np_binop ::
  "('a \<Rightarrow> 'b \<Rightarrow> 'c) \<Rightarrow> 'a ndarray \<Rightarrow> 'b ndarray \<Rightarrow> 'c ndarray result" where
  "np_binop f a b =
     (case broadcast_shape (np_shape a) (np_shape b) of
        None \<Rightarrow> Inl ValueError
      | Some r \<Rightarrow>
          Inr \<lparr>np_shape = r,
               np_data = map2 f (broadcast_data r (np_shape a) (np_data a))
                                (broadcast_data r (np_shape b) (np_data b))\<rparr>)"

definition np_map :: "('a \<Rightarrow> 'b) \<Rightarrow> 'a ndarray \<Rightarrow> 'b ndarray" where
  "np_map f a = \<lparr>np_shape = np_shape a, np_data = map f (np_data a)\<rparr>"

section \<open>Metrics of experiments/massspringdamper/utils.py\<close>

subsection \<open>total_energy and relative_energy_drift\<close>

text \<open>
  \<open>total_energy(state, k=1, m=1)\<close> branches on the rank of the state: a single state
  (rank 1) gives a scalar, a batch of states (rank 2) a vector, any other rank raises
  ValueError. The samples of the state are finite numbers of the format \<open>fmt\<close> of the
  array. The expression \<open>0.5*k*a*a + 0.5*m*b*b\<close> is evaluated from left to right, every
  operation rounded: \<open>0.5*k\<close> is a product of two Python numbers, a double; the further
  operations have an operand of the array and are operations of its format. An energy
  that overflows is \<open>inf\<close> (numpy warns and does not raise).
\<close>

definition energy_of :: "float_format \<Rightarrow> real \<Rightarrow> real \<Rightarrow> real \<Rightarrow> real \<Rightarrow> npfloat" where
  "energy_of fmt k m a b =
     fl_add fmt
       (fl_mul fmt (fl_mul fmt (fl_mul binary64 (Fin 0.5) (Fin k)) (Fin a)) (Fin a))
       (fl_mul fmt (fl_mul fmt (fl_mul binary64 (Fin 0.5) (Fin m)) (Fin b)) (Fin b))"

definition total_energy ::
  "float_format \<Rightarrow> real ndarray \<Rightarrow> real \<Rightarrow> real \<Rightarrow> npfloat ndarray result" where
  "total_energy fmt state k m =
     (if length (np_shape state) = 1 then
        bindE (np_getitem state 0) (\<lambda>s0.
        bindE (np_getitem state 1) (\<lambda>s1.
        np_binop (energy_of fmt k m) s0 s1))
      else if length (np_shape state) = 2 then
        bindE (np_column state 0) (\<lambda>c0.
        bindE (np_column state 1) (\<lambda>c1.
        np_binop (energy_of fmt k m) c0 c1))
      else Inl ValueError)"

definition relative_energy_drift ::
  "float_format \<Rightarrow> real ndarray \<Rightarrow> real ndarray \<Rightarrow> int \<Rightarrow> npfloat ndarray result" where
  "relative_energy_drift fmt x_pred x_true t =
     bindE (np_getitem x_pred t) (\<lambda>state_pred.
     bindE (total_energy fmt state_pred 1 1) (\<lambda>energy_pred.
     bindE (np_getitem x_true t) (\<lambda>state_true.
     bindE (total_energy fmt state_true 1 1) (\<lambda>energy_true.
     bindE (np_binop (fl_sub fmt) energy_pred energy_true) (\<lambda>diff.
     np_binop (fl_div fmt) diff energy_true)))))"

subsection \<open>zero_crossings and relative_phase_error\<close>

text \<open>
  \<open>np.diff\<close> takes differences of neighbours along the last axis and needs rank 1 at
  least; \<open>np.where(a)[0]\<close> lists, in row-major order, the first-axis index of every
  nonzero element; \<open>np.mean\<close> divides the sum by the number of elements, so the mean
  of an empty array is \<open>nan\<close>.
\<close>

definition chunks :: "nat \<Rightarrow> 'a list \<Rightarrow> 'a list list" where
  "chunks m xs = map (\<lambda>r. take m (drop (r * m) xs)) [0..<length xs div m]"

definition diff1 :: "real list \<Rightarrow> real list" where
  "diff1 xs = map2 (\<lambda>b a. b - a) (tl xs) xs"

definition np_diff :: "real ndarray \<Rightarrow> real ndarray result" where
  "np_diff a =
     (case rev (np_shape a) of
        [] \<Rightarrow> Inl ValueError
      | m # pre \<Rightarrow>
          Inr \<lparr>np_shape = rev pre @ [m - 1],
               np_data = concat (map diff1 (chunks m (np_data a)))\<rparr>)"

definition np_where0 :: "real ndarray \<Rightarrow> nat list" where
  "np_where0 a =
     (let inner = prod_list (tl (np_shape a))
      in map (\<lambda>p. p div inner) (filter (\<lambda>p. np_data a ! p \<noteq> 0) [0..<length (np_data a)]))"

definition np_mean :: "npfloat ndarray \<Rightarrow> npfloat" where
  "np_mean a = np_div (foldl np_add (Fin 0) (np_data a)) (Fin (real (length (np_data a))))"

definition np_array1 :: "'a list \<Rightarrow> 'a ndarray" where
  "np_array1 xs = \<lparr>np_shape = [length xs], np_data = xs\<rparr>"

definition zero_crossings :: "real ndarray \<Rightarrow> nat list result" where
  "zero_crossings x = bindE (np_diff (np_map sgn x)) (\<lambda>d. Inr (np_where0 d))"

text \<open>
  The first four lines of \<open>relative_phase_error\<close>: the crossings of the two position
  signals \<open>x[:, 0]\<close>, each cut to \<open>n_crossings\<close> entries by the slice \<open>[:n_crossings]\<close>.
  The pair returned is (\<open>ref_crossings[:n_crossings]\<close>, \<open>pred_crossings[:n_crossings]\<close>),
  the two divisors of line 144.
\<close>

definition retained_crossings ::
  "real ndarray \<Rightarrow> real ndarray \<Rightarrow> (nat list \<times> nat list) result" where
  "retained_crossings x_pred x_val =
     bindE (np_column x_val 0) (\<lambda>pos_val.
     bindE (zero_crossings pos_val) (\<lambda>ref_crossings.
     bindE (np_column x_pred 0) (\<lambda>pos_pred.
     bindE (zero_crossings pos_pred) (\<lambda>pred_crossings.
       let n_crossings = min (length pred_crossings) (length ref_crossings)
       in Inr (take n_crossings ref_crossings, take n_crossings pred_crossings)))))"

definition reciprocal :: "nat \<Rightarrow> npfloat" where
  "reciprocal c = np_div (Fin 1) (Fin (real c))"

definition relative_phase_error :: "real ndarray \<Rightarrow> real ndarray \<Rightarrow> npfloat result" where
  "relative_phase_error x_pred x_val =
     bindE (retained_crossings x_pred x_val) (\<lambda>(ref_n, pred_n).
     bindE (np_binop np_sub (np_map reciprocal (np_array1 ref_n))
                            (np_map reciprocal (np_array1 pred_n))) (\<lambda>phase_error.
     bindE (np_binop np_mul phase_error (np_map (\<lambda>c. Fin (real c)) (np_array1 ref_n)))
       (\<lambda>weighted. Inr (np_mean weighted))))"

subsection \<open>The results log of visualize\<close>

text \<open>
  The last lines of \<open>visualize\<close> (from the computation of \<open>file_path\<close> on) write the
  results log. The file system is a map from paths to the contents of regular files;
  \<open>open(path, 'a')\<close> followed by \<open>write\<close> and \<open>close\<close> appends, creating the file when it
  is absent. The eight values of the data row arrive already rendered by \<open>str.format\<close>.
\<close>

type_synonym filesystem = "string \<rightharpoonup> string"

definition isfile :: "filesystem \<Rightarrow> string \<Rightarrow> bool" where
  "isfile fs path = (fs path \<noteq> None)"

definition append_file :: "filesystem \<Rightarrow> string \<Rightarrow> string \<Rightarrow> filesystem" where
  "append_file fs path s = fs(path \<mapsto> (case fs path of None \<Rightarrow> s | Some old \<Rightarrow> old @ s))"

definition newline :: string where
  "newline = [CHR 0x0A]"

definition title_string :: string where
  "title_string =
     ''wall_time,epoch,energy_drift_interp,energy_drift_extrap, phase_error_interp,''
     @ ''phase_error_extrap, traj_err_interp, traj_err_extrap'' @ newline"

definition data_row :: "string list \<Rightarrow> string" where
  "data_row cells =
     (case cells of
        [wall_time, epoch, energy_drift_interp, energy_drift_extrap,
         phase_error_interp, phase_error_extrap, traj_error_interp, traj_error_extrap] \<Rightarrow>
          wall_time @ '','' @ epoch @ '','' @ energy_drift_interp @ '','' @ energy_drift_extrap
          @ '','' @ phase_error_interp @ '','' @ phase_error_extrap
          @ '','' @ traj_error_interp @ '','' @ traj_error_extrap @ newline
      | _ \<Rightarrow> [])"

definition results_path :: "string \<Rightarrow> string \<Rightarrow> string \<Rightarrow> string \<Rightarrow> string \<Rightarrow> string" where
  "results_path PLOT_DIR TIME_OF_RUN lr dataset_size batch_size =
     PLOT_DIR @ TIME_OF_RUN @ ''results'' @ lr @ dataset_size @ batch_size @ ''.csv''"

definition write_results :: "filesystem \<Rightarrow> string \<Rightarrow> string \<Rightarrow> filesystem" where
  "write_results fs file_path string =
     (let fs1 = (if \<not> isfile fs file_path then append_file fs file_path title_string else fs)
      in append_file fs1 file_path string)"

subsection \<open>create_dataset and load_dataset\<close>

text \<open>
  The class \<open>MassSpringDamper\<close> is imported by utils.py and is not among the sources:
  it is a parameter here, a constructor from the initial position and the optional
  initial velocity to an object with the two methods that \<open>create_dataset\<close> calls.
  The draws of \<open>np.random.random\<close> are a parameter too, a stream of numbers.
\<close>

record simulator =
  sim_step :: "real \<Rightarrow> int \<Rightarrow> real ndarray result"
  sim_call :: "real \<Rightarrow> real ndarray \<Rightarrow> real ndarray result"

text \<open>\<open>np.stack\<close> joins arrays of one shape along a new first axis.\<close>

definition np_stack :: "'a ndarray list \<Rightarrow> 'a ndarray result" where
  "np_stack arrays =
     (case arrays of
        [] \<Rightarrow> Inl ValueError
      | a # rest \<Rightarrow>
          if list_all (\<lambda>b. np_shape b = np_shape a) rest
          then Inr \<lparr>np_shape = length arrays # np_shape a,
                    np_data = concat (map np_data arrays)\<rparr>
          else Inl ValueError)"

text \<open>\<open>np.array([a])\<close>: a list of one array becomes an array with a new first axis of extent 1.\<close>

definition np_array_of_singleton :: "'a ndarray \<Rightarrow> 'a ndarray" where
  "np_array_of_singleton a = \<lparr>np_shape = 1 # np_shape a, np_data = np_data a\<rparr>"

type_synonym disk = "string \<rightharpoonup> real ndarray"

type_synonym dataset = "real ndarray \<times> real ndarray \<times> real ndarray \<times> real ndarray"

definition x_train_path :: string where
  "x_train_path = ''experiments/datasets/mass_spring_damper_x_train.npy''"

definition y_train_path :: string where
  "y_train_path = ''experiments/datasets/mass_spring_damper_y_train.npy''"

definition x_val_path :: string where
  "x_val_path = ''experiments/datasets/mass_spring_damper_x_val.npy''"

definition y_val_path :: string where
  "y_val_path = ''experiments/datasets/mass_spring_damper_y_val.npy''"

definition np_save :: "disk \<Rightarrow> string \<Rightarrow> real ndarray \<Rightarrow> disk" where
  "np_save d path a = d(path \<mapsto> a)"

definition np_load :: "disk \<Rightarrow> string \<Rightarrow> real ndarray result" where
  "np_load d path = (case d path of None \<Rightarrow> Inl FileNotFoundError | Some a \<Rightarrow> Inr a)"

text \<open>\<open>np.pi\<close> is a double; its value is written as numpy prints it.\<close>

definition np_pi :: real where
  "np_pi = 3.141592653589793"

definition simulate_pair :: "simulator \<Rightarrow> real \<Rightarrow> int \<Rightarrow> (real ndarray \<times> real ndarray) result" where
  "simulate_pair msd dt n_steps =
     bindE (sim_step msd dt n_steps) (\<lambda>x. bindE (sim_call msd 0 x) (\<lambda>y. Inr (x, y)))"

definition create_dataset ::
  "(real \<Rightarrow> real option \<Rightarrow> simulator) \<Rightarrow> (nat \<Rightarrow> real) \<Rightarrow> int \<Rightarrow> int \<Rightarrow> bool \<Rightarrow> disk
     \<Rightarrow> (dataset \<times> disk) result" where
  "create_dataset MassSpringDamper rng n_series samples_per_series save_to_disk d =
     (let delta_t = 0.01;
          dt = (real_of_int samples_per_series - 1) * delta_t
      in if n_series div 2 < 0 then Inl ValueError
      else
        let x0_in = map rng [0..<nat (n_series div 2)];
            x0_out = map (\<lambda>i. rng i + np_pi - 1) [nat (n_series div 2)..<nat n_series];
            x0 = x0_in @ x0_out
        in
        bindE (mapE (\<lambda>i. simulate_pair (MassSpringDamper (x0 ! i) None) dt samples_per_series)
                 [0..<nat n_series]) (\<lambda>train.
        bindE (np_stack (map fst train)) (\<lambda>x_train.
        bindE (np_stack (map snd train)) (\<lambda>y_train.
        bindE (simulate_pair (MassSpringDamper 5 (Some 0.5)) dt samples_per_series) (\<lambda>(xv1, yv1).
        bindE (simulate_pair (MassSpringDamper 1.5 (Some 0.5)) dt samples_per_series) (\<lambda>(xv2, yv2).
        bindE (np_stack [xv1, xv2]) (\<lambda>x_val.
        bindE (np_stack [np_array_of_singleton yv1, np_array_of_singleton yv2]) (\<lambda>y_val.
        Inr ((x_train, y_train, x_val, y_val),
             if save_to_disk
             then np_save (np_save (np_save (np_save d x_train_path x_train)
                    y_train_path y_train) x_val_path x_val) y_val_path y_val
             else d)))))))))"

text \<open>\<open>astype(np.float32)\<close> rounds every element; the rounding is a parameter.\<close>

definition load_dataset :: "(real \<Rightarrow> real) \<Rightarrow> disk \<Rightarrow> dataset result" where
  "load_dataset float32 d =
     bindE (np_load d x_train_path) (\<lambda>a1. let x_train = np_map float32 a1 in
     bindE (np_load d y_train_path) (\<lambda>a2. let y_train = np_map float32 a2 in
     bindE (np_load d x_val_path) (\<lambda>a3. let x_val = np_map float32 a3 in
     bindE (np_load d y_val_path) (\<lambda>a4. let y_val = np_map float32 a4 in
     Inr (x_train, y_train, x_val, y_val)))))"

subsection \<open>Vocabulary of the statements and inputs for evaluation\<close>

text \<open>
  A value is finite when it is neither an infinity nor \<open>nan\<close>. A signal is an array of
  rank 1; it changes sign at its start when the signs of samples 0 and 1 differ.
\<close>

fun is_finite :: "npfloat \<Rightarrow> bool" where
  "is_finite (Fin _) = True"
| "is_finite _ = False"

definition one_dim :: "'a ndarray \<Rightarrow> bool" where
  "one_dim a = (np_shape a = [length (np_data a)])"

definition sign_change_at_start :: "real ndarray \<Rightarrow> bool" where
  "sign_change_at_start s =
     (2 \<le> length (np_data s) \<and> sgn (np_data s ! 0) \<noteq> sgn (np_data s ! 1))"

text \<open>A time series of shape (n, 2) with the given positions and velocity 0.\<close>

definition series :: "real list \<Rightarrow> real ndarray" where
  "series positions =
     \<lparr>np_shape = [length positions, 2], np_data = concat (map (\<lambda>p. [p, 0]) positions)\<rparr>"

text \<open>A trajectory of one time step whose entry is a batch of two states.\<close>

definition batch_series :: "real ndarray" where
  "batch_series = \<lparr>np_shape = [1, 2, 2], np_data = [2, 0, 0, 2]\<rparr>"

text \<open>
  A trajectory of one state whose position is \<open>2 ^ 700\<close>, a double, and whose velocity
  is 0.
\<close>

definition huge :: real where
  "huge = 2 powr 700"

definition huge_series :: "real ndarray" where
  "huge_series = \<lparr>np_shape = [1, 2], np_data = [huge, 0]\<rparr>"

text \<open>
  A simulator to run \<open>create_dataset\<close> on: its trajectory stays at the initial state,
  and its derivative is the one of class \<open>Lambda\<close> of utils.py (m = 1, c = 1, d = 0).
  It stands in for the absent class only where a concrete run is evaluated.
\<close>

definition const_simulator :: "real \<Rightarrow> real option \<Rightarrow> simulator" where
  "const_simulator x x_dt =
     \<lparr>sim_step = (\<lambda>dt n_steps.
         if n_steps < 0 then Inl ValueError
         else Inr \<lparr>np_shape = [nat n_steps, 2],
                   np_data = concat (replicate (nat n_steps) [x, case_option 0 id x_dt])\<rparr>),
      sim_call = (\<lambda>t states.
         bindE (np_column states 1) (\<lambda>v. bindE (np_column states 0) (\<lambda>p.
           Inr \<lparr>np_shape = np_shape states,
                np_data = concat (map2 (\<lambda>vi pi. [vi, - pi]) (np_data v) (np_data p))\<rparr>)))\<rparr>"

definition demo_x_train :: "real ndarray" where
  "demo_x_train = \<lparr>np_shape = [1, 2, 2], np_data = [np_pi - 1 / 2, 0, np_pi - 1 / 2, 0]\<rparr>"

definition demo_y_train :: "real ndarray" where
  "demo_y_train =
     \<lparr>np_shape = [1, 2, 2], np_data = [0, - (np_pi - 1 / 2), 0, - (np_pi - 1 / 2)]\<rparr>"

definition demo_x_val :: "real ndarray" where
  "demo_x_val =
     \<lparr>np_shape = [2, 2, 2], np_data = [5, 1 / 2, 5, 1 / 2, 3 / 2, 1 / 2, 3 / 2, 1 / 2]\<rparr>"

definition demo_y_val :: "real ndarray" where
  "demo_y_val =
     \<lparr>np_shape = [2, 1, 2, 2],
      np_data = [1 / 2, - 5, 1 / 2, - 5, 1 / 2, - (3 / 2), 1 / 2, - (3 / 2)]\<rparr>"

definition demo_disk :: disk where
  "demo_disk =
     np_save (np_save (np_save (np_save Map.empty x_train_path demo_x_train)
       y_train_path demo_y_train) x_val_path demo_x_val) y_val_path demo_y_val"

section \<open>Tensors and library operations (TensorFlow, tfdiffeq.misc)\<close>

text \<open>
  tfdiffeq_2.py works on TensorFlow tensors through operations of TensorFlow and helpers
  of the tfdiffeq library; neither is part of the repository. A tensor is modelled by
  its shape, its dtype, its device and its values in row-major order, the values being
  real numbers as for arrays. The operations are modelled by what they compute, and
  they fail where TensorFlow rejects the shapes. Dtype and device are carried along
  (the result of an operation has those of its first operand) and never compared:
  errors of mixed dtypes or devices are not part of the model.
\<close>

datatype dtype = Float32 | Float64 | Int32

record tensor =
  t_shape :: "nat list"
  t_dtype :: dtype
  t_device :: string
  t_vals :: "real list"

text \<open>
  Helpers of tfdiffeq.misc: \<open>_numel\<close> is the number of elements, \<open>_check_len\<close> the extent
  of the first axis (\<open>x.shape[0]\<close>, which raises on a scalar), \<open>cast_double\<close> a cast to
  float64, \<open>move_to_device\<close> a copy on the given device.
\<close>

definition numel :: "tensor \<Rightarrow> nat" where
  "numel x = prod_list (t_shape x)"

definition check_len :: "tensor \<Rightarrow> nat result" where
  "check_len x = (case t_shape x of [] \<Rightarrow> Inl IndexError | n # _ \<Rightarrow> Inr n)"

definition cast_double :: "tensor \<Rightarrow> tensor" where
  "cast_double x = x\<lparr>t_dtype := Float64\<rparr>"

definition move_to_device :: "tensor \<Rightarrow> string \<Rightarrow> tensor" where
  "move_to_device x device = x\<lparr>t_device := device\<rparr>"

text \<open>
  \<open>tf.convert_to_tensor(v, dtype)\<close> of a Python number is a scalar;
  \<open>tf.convert_to_tensor([])\<close> is an empty float32 vector.
\<close>

definition tf_scalar :: "real \<Rightarrow> dtype \<Rightarrow> tensor" where
  "tf_scalar v dt = \<lparr>t_shape = [], t_dtype = dt, t_device = [], t_vals = [v]\<rparr>"

definition tf_empty :: tensor where
  "tf_empty = \<lparr>t_shape = [0], t_dtype = Float32, t_device = [], t_vals = []\<rparr>"

definition tf_zeros_like :: "tensor \<Rightarrow> tensor" where
  "tf_zeros_like x = x\<lparr>t_vals := replicate (numel x) 0\<rparr>"

definition tf_neg :: "tensor \<Rightarrow> tensor" where
  "tf_neg x = x\<lparr>t_vals := map uminus (t_vals x)\<rparr>"

text \<open>
  \<open>x[i]\<close> indexes the first axis, with Python's negative indices. Iterating a tensor
  (unpacking it with \<open>*\<close>, or \<open>zip\<close>) yields its entries along the first axis and raises
  on a scalar.
\<close>

definition tf_getitem :: "tensor \<Rightarrow> int \<Rightarrow> tensor result" where
  "tf_getitem x i =
     (case t_shape x of
        [] \<Rightarrow> Inl InvalidArgumentError
      | n # rest \<Rightarrow>
          (case py_index n i of
             Inl e \<Rightarrow> Inl InvalidArgumentError
           | Inr j \<Rightarrow>
               Inr (x\<lparr>t_shape := rest,
                      t_vals := take (prod_list rest) (drop (j * prod_list rest) (t_vals x))\<rparr>)))"

definition tf_unstack :: "tensor \<Rightarrow> tensor list result" where
  "tf_unstack x =
     (case t_shape x of
        [] \<Rightarrow> Inl TypeError
      | n # rest \<Rightarrow> mapE (\<lambda>i. tf_getitem x (int i)) [0..<n])"

definition tf_binop :: "(real \<Rightarrow> real \<Rightarrow> real) \<Rightarrow> tensor \<Rightarrow> tensor \<Rightarrow> tensor result" where
  "tf_binop f a b =
     (case broadcast_shape (t_shape a) (t_shape b) of
        None \<Rightarrow> Inl InvalidArgumentError
      | Some r \<Rightarrow>
          Inr (a\<lparr>t_shape := r,
                 t_vals := map2 f (broadcast_data r (t_shape a) (t_vals a))
                                  (broadcast_data r (t_shape b) (t_vals b))\<rparr>))"

definition tf_add :: "tensor \<Rightarrow> tensor \<Rightarrow> tensor result" where
  "tf_add = tf_binop (\<lambda>a b. a + b)"

definition tf_sub :: "tensor \<Rightarrow> tensor \<Rightarrow> tensor result" where
  "tf_sub = tf_binop (\<lambda>a b. a - b)"

text \<open>
  \<open>tf.reshape\<close> with at most one extent \<open>-1\<close>, which stands for whatever makes the
  number of elements fit; \<open>tf.matmul\<close> of two matrices.
\<close>

definition tf_reshape :: "tensor \<Rightarrow> int list \<Rightarrow> tensor result" where
  "tf_reshape x dims =
     (let known = prod_list (filter (\<lambda>d. d \<noteq> - 1) dims);
          n = int (numel x)
      in if list_ex (\<lambda>d. d < - 1) dims \<or> 1 < length (filter (\<lambda>d. d = - 1) dims)
         then Inl InvalidArgumentError
         else if list_ex (\<lambda>d. d = - 1) dims
         then (if 0 < known \<and> n mod known = 0
               then Inr (x\<lparr>t_shape := map (\<lambda>d. nat (if d = - 1 then n div known else d)) dims\<rparr>)
               else Inl InvalidArgumentError)
         else if known = n then Inr (x\<lparr>t_shape := map nat dims\<rparr>)
         else Inl InvalidArgumentError)"

definition tf_matmul :: "tensor \<Rightarrow> tensor \<Rightarrow> tensor result" where
  "tf_matmul a b =
     (case (t_shape a, t_shape b) of
        ([m, k], [k', n]) \<Rightarrow>
          if k = k'
          then Inr (a\<lparr>t_shape := [m, n],
                      t_vals := concat (map (\<lambda>i. map (\<lambda>j.
                                  sum_list (map (\<lambda>l. t_vals a ! (i * k + l) * t_vals b ! (l * n + j))
                                     [0..<k])) [0..<n]) [0..<m])\<rparr>)
          else Inl InvalidArgumentError
      | _ \<Rightarrow> Inl InvalidArgumentError)"

text \<open>
  \<open>tf.stack\<close> (also \<open>tf.convert_to_tensor\<close> of a list of tensors) joins tensors of one
  shape along a new first axis; \<open>tf.expand_dims(x, axis=0)\<close> adds a first axis of extent
  1; \<open>tf.concat(xs, 0)\<close> joins tensors of rank 1 or more along their first axis and
  returns a single tensor unchanged; \<open>tf.split(x, sizes)\<close> cuts the first axis into
  pieces of the given sizes, at least one.
\<close>

definition tf_stack :: "tensor list \<Rightarrow> tensor result" where
  "tf_stack xs =
     (case xs of
        [] \<Rightarrow> Inr tf_empty
      | x # rest \<Rightarrow>
          if list_all (\<lambda>y. t_shape y = t_shape x) rest
          then Inr (x\<lparr>t_shape := length xs # t_shape x, t_vals := concat (map t_vals xs)\<rparr>)
          else Inl InvalidArgumentError)"

definition tf_expand_dims0 :: "tensor \<Rightarrow> tensor" where
  "tf_expand_dims0 x = x\<lparr>t_shape := 1 # t_shape x\<rparr>"

definition tf_concat :: "tensor list \<Rightarrow> tensor result" where
  "tf_concat xs =
     (case xs of
        [] \<Rightarrow> Inl ValueError
      | [x] \<Rightarrow> Inr x
      | x # rest \<Rightarrow>
          if t_shape x \<noteq> [] \<and> list_all (\<lambda>y. t_shape y \<noteq> [] \<and> tl (t_shape y) = tl (t_shape x)) rest
          then Inr (x\<lparr>t_shape := sum_list (map (\<lambda>y. hd (t_shape y)) xs) # tl (t_shape x),
                      t_vals := concat (map t_vals xs)\<rparr>)
          else Inl InvalidArgumentError)"

primrec split_vals :: "nat list \<Rightarrow> nat \<Rightarrow> real list \<Rightarrow> real list list" where
  "split_vals [] inner vs = []"
| "split_vals (s # ss) inner vs = take (s * inner) vs # split_vals ss inner (drop (s * inner) vs)"

definition tf_split :: "tensor \<Rightarrow> nat list \<Rightarrow> tensor list result" where
  "tf_split x sizes =
     (case t_shape x of
        [] \<Rightarrow> Inl InvalidArgumentError
      | n # rest \<Rightarrow>
          if sizes \<noteq> [] \<and> sum_list sizes = n
          then Inr (map2 (\<lambda>s vs. x\<lparr>t_shape := s # rest, t_vals := vs\<rparr>)
                      sizes (split_vals sizes (prod_list rest) (t_vals x)))
          else Inl InvalidArgumentError)"

text \<open>
  \<open>_flatten\<close> reshapes every tensor of a sequence to a vector and concatenates them (the
  empty vector for an empty sequence). \<open>_flatten_convert_none_to_zeros\<close> does the same
  after replacing every missing entry by \<open>zeros_like\<close> of the tensor at its place in the
  second sequence.
\<close>

definition flatten :: "tensor list \<Rightarrow> tensor" where
  "flatten xs =
     (case xs of
        [] \<Rightarrow> tf_empty
      | x # rest \<Rightarrow> x\<lparr>t_shape := [sum_list (map numel xs)], t_vals := concat (map t_vals xs)\<rparr>)"

definition flatten_convert_none_to_zeros :: "tensor option list \<Rightarrow> tensor list \<Rightarrow> tensor" where
  "flatten_convert_none_to_zeros xs like =
     flatten (map2 (\<lambda>p q. case p of None \<Rightarrow> tf_zeros_like q | Some v \<Rightarrow> v) xs like)"

text \<open>
  Python's \<open>sum\<close> starts from the integer 0, so the sum over no tensor is 0 and the sum
  over some tensors is their left-to-right sum. \<open>xs[i]\<close> on a tuple raises IndexError out
  of range.
\<close>

definition py_sum :: "tensor list \<Rightarrow> tensor result" where
  "py_sum xs =
     (case xs of
        [] \<Rightarrow> Inr (tf_scalar 0 Int32)
      | x # rest \<Rightarrow> foldl (\<lambda>acc y. bindE acc (\<lambda>a. tf_add a y)) (Inr x) rest)"

definition py_item :: "'a list \<Rightarrow> nat \<Rightarrow> 'a result" where
  "py_item xs i = (if i < length xs then Inr (xs ! i) else Inl IndexError)"

section \<open>The adjoint backward pass of tfdiffeq_2.py\<close>

text \<open>
  The closure \<open>grad\<close> of \<open>OdeintAdjointMethod\<close> uses three things it does not define, and
  they are parameters here:
  \<^item> \<open>func\<close>, the dynamics: \<open>func(t, y)\<close> for a time and a tuple of state tensors, as the
    one tensor that \<open>cast_double\<close> makes of the result (the components along the first
    axis);
  \<^item> \<open>tape_gradient\<close>, the reverse-mode differentiation \<open>tape.gradient\<close> of that
    evaluation with respect to \<open>(t,) + y + f_params\<close> for given output gradients: a list
    with one entry per leaf, \<open>None\<close> where the evaluation does not depend on the leaf;
  \<^item> \<open>odeint\<close>, the solver with its method, tolerances and options: from a function, an
    initial tuple of tensors and a tensor of time points to a tuple of tensors with one
    entry along the first axis per time point.
\<close>

type_synonym dynamics = "tensor \<Rightarrow> tensor list \<Rightarrow> tensor result"

type_synonym tape = "tensor \<Rightarrow> tensor list \<Rightarrow> tensor list \<Rightarrow> tensor \<Rightarrow> tensor option list"

type_synonym aug_dynamics = "tensor \<Rightarrow> tensor list \<Rightarrow> tensor list result"

type_synonym solver = "aug_dynamics \<Rightarrow> tensor list \<Rightarrow> tensor \<Rightarrow> tensor list result"

text \<open>
  \<open>augmented_dynamics(t, y_aug)\<close>, lines 61 to 96. With no trainable parameter the code
  reads \<open>vjp_y[0].dype\<close>: an IndexError when \<open>vjp_y\<close> is empty, an AttributeError
  otherwise, since a tensor has no attribute of that name.
\<close>

definition augmented_dynamics ::
  "dynamics \<Rightarrow> tape \<Rightarrow> nat \<Rightarrow> tensor list \<Rightarrow> tensor \<Rightarrow> tensor list \<Rightarrow> tensor list result" where
  "augmented_dynamics func tape_gradient n_tensors f_params t y_aug =
     (let y = take n_tensors y_aug;
          adj_y = take n_tensors (drop n_tensors y_aug)
      in bindE (func t y) (\<lambda>raw_eval.
         let func_eval = cast_double raw_eval
         in bindE (tf_stack (map tf_neg adj_y)) (\<lambda>stacked.
         let gradys = (if length (t_shape stacked) < length (t_shape func_eval)
                       then tf_expand_dims0 stacked else stacked)
         in case tape_gradient t y f_params gradys of
              [] \<Rightarrow> Inl ValueError
            | vjp_t0 # vjp_y_and_params \<Rightarrow>
                let vjp_y0 = take n_tensors vjp_y_and_params;
                    vjp_params0 = drop n_tensors vjp_y_and_params;
                    vjp_t = (case vjp_t0 of None \<Rightarrow> tf_zeros_like t | Some v \<Rightarrow> v);
                    vjp_y = map2 (\<lambda>vjp_y_i y_i. case vjp_y_i of None \<Rightarrow> tf_zeros_like y_i | Some v \<Rightarrow> v)
                              vjp_y0 y;
                    vjp_params = flatten_convert_none_to_zeros vjp_params0 f_params
                in if length f_params = 0
                   then (case vjp_y of [] \<Rightarrow> Inl IndexError | v # _ \<Rightarrow> Inl AttributeError)
                   else bindE (tf_unstack func_eval) (\<lambda>func_eval_items.
                        Inr (func_eval_items @ vjp_y @ [vjp_t, vjp_params])))))"

text \<open>
  The loop of \<open>grad\<close> keeps \<open>adj_y\<close>, \<open>adj_time\<close>, \<open>adj_params\<close> and \<open>time_vjps\<close>; the
  model keeps a fifth component, the log of the calls of the solver, each with its
  initial state \<open>aug_y0\<close> and its tensor of time points. \<open>grad_output\<close> is the tuple of
  the starred parameter, never a tensor, so of the two \<open>isinstance\<close> branches only the
  tuple branch is modelled; a tensor is iterable, so \<open>func_i\<close> is never wrapped in a list
  and the \<open>isinstance(adj_params, Iterable)\<close> test holds.
\<close>

record adjoint_state =
  adj_y :: "tensor list"
  adj_time :: tensor
  adj_params :: tensor
  time_vjps :: "tensor list"
  solver_calls :: "(tensor list \<times> tensor) list"

text \<open>Lines 111 to 126: the effect of moving the time point \<open>t[i]\<close>.\<close>

definition dot_term :: "tensor \<Rightarrow> tensor \<Rightarrow> tensor result" where
  "dot_term func_i_k grad_output_i_k =
     bindE (tf_reshape func_i_k [1, - 1]) (\<lambda>row.
     bindE (tf_reshape grad_output_i_k [- 1, 1]) (\<lambda>col.
     bindE (tf_matmul row col) (\<lambda>prod. tf_reshape prod [1])))"

definition time_contribution ::
  "dynamics \<Rightarrow> tensor \<Rightarrow> tensor list \<Rightarrow> nat \<Rightarrow> tensor list \<Rightarrow> tensor result" where
  "time_contribution func t grad_output i ans_i =
     bindE (mapE (\<lambda>g. tf_getitem g (int i)) grad_output) (\<lambda>grad_output_i.
     bindE (tf_getitem t (int i)) (\<lambda>t_i.
     bindE (func t_i ans_i) (\<lambda>raw.
     bindE (tf_unstack (cast_double raw)) (\<lambda>func_i.
     bindE (mapE (\<lambda>(f, g). dot_term f g) (zip func_i grad_output_i)) py_sum))))"

text \<open>Lines 148 to 154 unpack the result of the solver, line 156 adds the gradient at \<open>i - 1\<close>.\<close>

definition unpack_item :: "tensor \<Rightarrow> tensor result" where
  "unpack_item x = bindE (check_len x) (\<lambda>n. if 0 < n then tf_getitem x 1 else Inr x)"

definition unpack_aug_ans ::
  "nat \<Rightarrow> tensor list \<Rightarrow> (tensor list \<times> tensor \<times> tensor) result" where
  "unpack_aug_ans n_tensors aug_ans =
     (let adj_y0 = take n_tensors (drop n_tensors aug_ans)
      in bindE (py_item aug_ans (2 * n_tensors)) (\<lambda>adj_time0.
         bindE (py_item aug_ans (2 * n_tensors + 1)) (\<lambda>adj_params0.
         bindE (mapE unpack_item adj_y0) (\<lambda>adj_y1.
         bindE (unpack_item adj_time0) (\<lambda>adj_time1.
         bindE (unpack_item adj_params0) (\<lambda>adj_params1.
         Inr (adj_y1, adj_time1, adj_params1)))))))"

definition correct_adj_y :: "tensor list \<Rightarrow> tensor list \<Rightarrow> nat \<Rightarrow> tensor list result" where
  "correct_adj_y adj_y1 grad_output i =
     mapE (\<lambda>(a, g). bindE (tf_getitem g (int i - 1)) (\<lambda>g_prev. tf_add a g_prev))
       (zip adj_y1 grad_output)"

text \<open>One pass through the body of the loop (lines 109 to 158), for the output index \<open>i\<close>.\<close>

definition grad_segment ::
  "dynamics \<Rightarrow> tape \<Rightarrow> solver \<Rightarrow> tensor list \<Rightarrow> tensor \<Rightarrow> tensor list \<Rightarrow> tensor list
     \<Rightarrow> nat \<Rightarrow> adjoint_state \<Rightarrow> adjoint_state result" where
  "grad_segment func tape_gradient odeint ans t grad_output f_params i st =
     (let n_tensors = length ans
      in bindE (mapE (\<lambda>a. tf_getitem a (int i)) ans) (\<lambda>ans_i.
         bindE (time_contribution func t grad_output i ans_i) (\<lambda>dLd_cur_t.
         bindE (tf_sub (cast_double (adj_time st)) dLd_cur_t) (\<lambda>adj_time1.
         bindE (if numel (adj_params st) = 0
                then (case adj_y st of
                        [] \<Rightarrow> Inl IndexError
                      | a # _ \<Rightarrow> Inr (move_to_device (tf_scalar 0 (t_dtype a)) (t_device a)))
                else Inr (adj_params st)) (\<lambda>adj_params1.
         let aug_y0 = ans_i @ adj_y st @ [adj_time1, adj_params1]
         in bindE (tf_getitem t (int i)) (\<lambda>t_i.
            bindE (tf_getitem t (int i - 1)) (\<lambda>t_prev.
            bindE (tf_stack [t_i, t_prev]) (\<lambda>t_pair.
            bindE (odeint (augmented_dynamics func tape_gradient n_tensors f_params) aug_y0 t_pair)
              (\<lambda>aug_ans.
            bindE (unpack_aug_ans n_tensors aug_ans) (\<lambda>(adj_y1, adj_time2, adj_params2).
            bindE (correct_adj_y adj_y1 grad_output i) (\<lambda>adj_y2.
            Inr \<lparr>adj_y = adj_y2, adj_time = adj_time2, adj_params = adj_params2,
                 time_vjps = time_vjps st @ [dLd_cur_t],
                 solver_calls = solver_calls st @ [(aug_y0, t_pair)]\<rparr>)))))))))))"

primrec grad_loop ::
  "dynamics \<Rightarrow> tape \<Rightarrow> solver \<Rightarrow> tensor list \<Rightarrow> tensor \<Rightarrow> tensor list \<Rightarrow> tensor list
     \<Rightarrow> nat list \<Rightarrow> adjoint_state \<Rightarrow> adjoint_state result" where
  "grad_loop func tape_gradient odeint ans t grad_output f_params [] st = Inr st"
| "grad_loop func tape_gradient odeint ans t grad_output f_params (i # rest) st =
     bindE (grad_segment func tape_gradient odeint ans t grad_output f_params i st)
       (grad_loop func tape_gradient odeint ans t grad_output f_params rest)"

text \<open>
  \<open>grad(*grad_output, variables=None)\<close>. TensorFlow passes no \<open>variables\<close> when the
  function uses none, and \<open>_flatten(None)\<close> raises TypeError. The loop runs over
  \<open>range(T - 1, 0, -1)\<close>. The result holds the gradients with respect to the inputs
  (\<open>(*adj_y, time_vjps)\<close>), those with respect to the variables, and the log of the calls
  of the solver.
\<close>

record grad_result =
  input_grads :: "tensor list"
  variable_grads :: "tensor list"
  odeint_calls :: "(tensor list \<times> tensor) list"

definition n_outputs :: "tensor list \<Rightarrow> nat result" where
  "n_outputs ans =
     (case ans of
        [] \<Rightarrow> Inl IndexError
      | a # _ \<Rightarrow> (case t_shape a of [] \<Rightarrow> Inl IndexError | T # _ \<Rightarrow> Inr T))"

definition grad ::
  "dynamics \<Rightarrow> tape \<Rightarrow> solver \<Rightarrow> tensor list \<Rightarrow> tensor \<Rightarrow> tensor list \<Rightarrow> tensor list option
     \<Rightarrow> grad_result result" where
  "grad func tape_gradient odeint ans t grad_output variables =
     (case variables of
        None \<Rightarrow> Inl TypeError
      | Some vars \<Rightarrow>
          let flat_params = flatten vars;
              f_params = vars
          in bindE (n_outputs ans) (\<lambda>T.
             bindE (mapE (\<lambda>g. tf_getitem g (- 1)) grad_output) (\<lambda>adj_y0.
             let adj_params0 = tf_zeros_like flat_params;
                 adj_time0 = move_to_device (tf_scalar 0 (t_dtype t)) (t_device t)
             in bindE (grad_loop func tape_gradient odeint ans t grad_output f_params
                         (rev [1..<T])
                         \<lparr>adj_y = adj_y0, adj_time = adj_time0, adj_params = adj_params0,
                          time_vjps = [], solver_calls = []\<rparr>) (\<lambda>st.
                bindE (tf_concat (rev (time_vjps st @ [adj_time st]))) (\<lambda>time_grads.
                bindE (tf_split (adj_params st) (map numel vars)) (\<lambda>adj_params_splits.
                bindE (mapE (\<lambda>(p, v). tf_reshape p (map int (t_shape v)))
                         (zip adj_params_splits vars)) (\<lambda>adj_params_list.
                Inr \<lparr>input_grads = adj_y st @ [time_grads],
                     variable_grads = adj_params_list,
                     odeint_calls = solver_calls st\<rparr>)))))))"

subsection \<open>Vocabulary of the statements about the backward pass\<close>

text \<open>
  In an initial state \<open>(*ans_i, *adj_y, adj_time, adj_params)\<close> of the solver, the
  adjoint of the state is what lies between the first \<open>n_tensors\<close> entries and the last
  two, and the adjoint of time is the last entry but one. \<open>segment_ok\<close> and
  \<open>time_segment_ok\<close> say of one call of the solver, for the output index \<open>i\<close>, what the
  loop does around it. \<open>fill_missing\<close> relates a gradient that may be missing, its leaf
  and the tensor used for it.
\<close>

definition adj_y_of_call :: "nat \<Rightarrow> tensor list \<Rightarrow> tensor list" where
  "adj_y_of_call n_tensors aug_y0 = butlast (butlast (drop n_tensors aug_y0))"

definition adj_time_of_call :: "tensor list \<Rightarrow> tensor" where
  "adj_time_of_call aug_y0 = last (butlast aug_y0)"

definition segment_ok ::
  "dynamics \<Rightarrow> tape \<Rightarrow> solver \<Rightarrow> tensor list \<Rightarrow> tensor \<Rightarrow> tensor list \<Rightarrow> tensor list
     \<Rightarrow> nat \<Rightarrow> (tensor list \<times> tensor) \<Rightarrow> tensor list \<Rightarrow> bool" where
  "segment_ok func tape_gradient odeint ans t grad_output f_params i call adj_y_next =
     ((\<exists>t_i t_prev. tf_getitem t (int i) = Inr t_i \<and> tf_getitem t (int i - 1) = Inr t_prev
          \<and> tf_stack [t_i, t_prev] = Inr (snd call))
      \<and> (\<exists>aug_ans adj_y1 adj_time1 adj_params1.
            odeint (augmented_dynamics func tape_gradient (length ans) f_params) (fst call) (snd call)
              = Inr aug_ans
          \<and> unpack_aug_ans (length ans) aug_ans = Inr (adj_y1, adj_time1, adj_params1)
          \<and> correct_adj_y adj_y1 grad_output i = Inr adj_y_next))"

definition dot_product :: "tensor \<Rightarrow> tensor \<Rightarrow> real" where
  "dot_product f g = sum_list (map (\<lambda>l. t_vals f ! l * t_vals g ! l) [0..<numel f])"

definition time_segment_ok ::
  "dynamics \<Rightarrow> tape \<Rightarrow> solver \<Rightarrow> tensor list \<Rightarrow> tensor \<Rightarrow> tensor list \<Rightarrow> tensor list
     \<Rightarrow> nat \<Rightarrow> (tensor list \<times> tensor) \<Rightarrow> tensor \<Rightarrow> tensor \<Rightarrow> tensor \<Rightarrow> bool" where
  "time_segment_ok func tape_gradient odeint ans t grad_output f_params i call before dLd after =
     ((\<exists>ans_i. mapE (\<lambda>a. tf_getitem a (int i)) ans = Inr ans_i
          \<and> time_contribution func t grad_output i ans_i = Inr dLd)
      \<and> tf_sub (cast_double before) dLd = Inr (adj_time_of_call (fst call))
      \<and> (\<exists>aug_ans adj_y1 adj_params1.
            odeint (augmented_dynamics func tape_gradient (length ans) f_params) (fst call) (snd call)
              = Inr aug_ans
          \<and> unpack_aug_ans (length ans) aug_ans = Inr (adj_y1, after, adj_params1)))"

definition fill_missing :: "tensor option \<Rightarrow> tensor \<Rightarrow> tensor \<Rightarrow> bool" where
  "fill_missing vjp leaf out = (case vjp of None \<Rightarrow> out = tf_zeros_like leaf | Some v \<Rightarrow> out = v)"

subsection \<open>A linear model and a fixed-step solver to evaluate the backward pass on\<close>

text \<open>
  The model of the script at the end of tfdiffeq_2.py, \<open>x * a + b\<close> with the parameters
  \<open>a\<close> and \<open>b\<close>, on one scalar state; its vector-Jacobian products, where time has no
  gradient; and the explicit Euler method as the solver.
\<close>

definition linear_func :: "real \<Rightarrow> real \<Rightarrow> dynamics" where
  "linear_func a b t y =
     (case y of
        [y0] \<Rightarrow> Inr (y0\<lparr>t_shape := 1 # t_shape y0, t_vals := map (\<lambda>v. a * v + b) (t_vals y0)\<rparr>)
      | _ \<Rightarrow> Inl ValueError)"

definition linear_tape :: "real \<Rightarrow> tape" where
  "linear_tape a t y f_params gradys =
     (case y of
        [y0] \<Rightarrow>
          [None,
           Some (y0\<lparr>t_vals := map (\<lambda>g. a * g) (t_vals gradys)\<rparr>),
           Some (tf_scalar (sum_list (map2 (\<lambda>v g. v * g) (t_vals y0) (t_vals gradys))) Float64),
           Some (tf_scalar (sum_list (t_vals gradys)) Float64)]
      | _ \<Rightarrow> [])"

fun euler_steps :: "aug_dynamics \<Rightarrow> real list \<Rightarrow> tensor list \<Rightarrow> tensor list list result" where
  "euler_steps f (t0 # t1 # ts) y =
     bindE (f (tf_scalar t0 Float64) y) (\<lambda>dy.
     bindE (mapE (\<lambda>(yk, dk). tf_add yk (dk\<lparr>t_vals := map (\<lambda>v. (t1 - t0) * v) (t_vals dk)\<rparr>))
              (zip y dy)) (\<lambda>y1.
     bindE (euler_steps f (t1 # ts) y1) (\<lambda>ys. Inr (y1 # ys))))"
| "euler_steps f _ y = Inr []"

definition euler_odeint :: solver where
  "euler_odeint f y0 t_points =
     bindE (euler_steps f (t_vals t_points) y0) (\<lambda>ys.
     mapE (\<lambda>k. tf_stack (map (\<lambda>y. y ! k) (y0 # ys))) [0..<length y0])"

definition vec :: "real list \<Rightarrow> tensor" where
  "vec vs = \<lparr>t_shape = [length vs], t_dtype = Float64, t_device = [], t_vals = vs\<rparr>"

definition scalar64 :: "real \<Rightarrow> tensor" where
  "scalar64 v = tf_scalar v Float64"

definition demo_res :: grad_result where
  "demo_res =
     \<lparr>input_grads = [scalar64 (9 / 4), vec [- 5, 0, 5]],
      variable_grads = [scalar64 (7 / 2), scalar64 (5 / 4)],
      odeint_calls =
        [([scalar64 4, scalar64 1, vec [- 5], vec [0, 0]], vec [1, 1 / 2]),
         ([scalar64 2, scalar64 (3 / 2), vec [- 5], vec [2, 1 / 2]], vec [1 / 2, 0])]\<rparr>"

definition demo_aug_state :: "tensor list" where
  "demo_aug_state = [scalar64 2, scalar64 (3 / 2), vec [- 5], vec [2, 1 / 2]]"

section \<open>Basic facts\<close>

lemma bindE_Inr [simp]: "bindE (Inr v) f = f v"
  by (simp add: bindE_def)

lemma bindE_Inl [simp]: "bindE (Inl e) f = Inl e"
  by (simp add: bindE_def)

lemma bindE_eq_Inr:
  "bindE m f = Inr r \<longleftrightarrow> (\<exists>v. m = Inr v \<and> f v = Inr r)"
  by (cases m) simp_all

lemma bc_rev_same: "bc_rev xs xs = Some xs"
  by (induction xs) simp_all

lemma broadcast_shape_same: "broadcast_shape s s = Some s"
  by (simp add: broadcast_shape_def bc_rev_same)

lemma np_binop_same_shape:
  "np_shape a = np_shape b \<Longrightarrow>
   np_binop f a b = Inr \<lparr>np_shape = np_shape a, np_data = map2 f (np_data a) (np_data b)\<rparr>"
  by (simp add: np_binop_def broadcast_shape_same broadcast_data_def)


section \<open>The energy drift of a trajectory against itself\<close>

subsection \<open>Rounding of zero and of powers of two\<close>

lemma round_to_zero: "round_to fmt 0 = Fin 0"
  by (simp add: round_to_def)

lemma round_half_even_int: "round_half_even (of_int k) = k"
  by (simp add: round_half_even_def)

lemma round_to_pow2:
  assumes "2 - emax fmt \<le> j" "0 < precision fmt"
  shows "round_to fmt (2 powr of_int j) = (if j < emax fmt then Fin (2 powr of_int j) else PInf)"
proof -
  let ?x = "2 powr (of_int j :: real)"
  let ?p = "precision fmt"
  have pos: "0 < ?x" by simp
  have e: "max \<lfloor>log 2 \<bar>?x\<bar>\<rfloor> (2 - emax fmt) = j"
    using assms(1) by simp
  have q: "\<bar>?x\<bar> / 2 powr of_int (j - (int ?p - 1)) = of_int (2 ^ (?p - 1))"
  proof -
    have "\<bar>?x\<bar> / 2 powr of_int (j - (int ?p - 1)) = 2 powr (of_int j - of_int (j - (int ?p - 1)))"
      by (simp add: powr_diff)
    also have "of_int j - of_int (j - (int ?p - 1)) = (real (?p - 1))"
      using assms(2) by (simp add: of_nat_diff)
    also have "2 powr real (?p - 1) = of_int (2 ^ (?p - 1))"
      by (simp add: powr_realpow)
    finally show ?thesis .
  qed
  have r: "of_int (round_half_even (\<bar>?x\<bar> / 2 powr of_int (j - (int ?p - 1))))
             * 2 powr of_int (j - (int ?p - 1)) = ?x"
  proof -
    have "of_int (2 ^ (?p - 1)) * 2 powr of_int (j - (int ?p - 1))
           = 2 powr real (?p - 1) * 2 powr of_int (j - (int ?p - 1))"
      by (simp add: powr_realpow)
    also have "\<dots> = 2 powr (real (?p - 1) + of_int (j - (int ?p - 1)))"
      by (simp add: powr_add)
    also have "real (?p - 1) + of_int (j - (int ?p - 1)) = of_int j"
      using assms(2) by (simp add: of_nat_diff)
    finally show ?thesis
      unfolding q round_half_even_int .
  qed
  have cmp: "(2 powr of_int (emax fmt) \<le> ?x) \<longleftrightarrow> emax fmt \<le> j"
    by simp
  show ?thesis
    using pos unfolding round_to_def Let_def e r cmp
    by (simp add: inf_of_sign_def)
qed

lemma binary64_pow2_finite:
  "- 1022 \<le> j \<Longrightarrow> j < 1024 \<Longrightarrow> round_to binary64 (2 powr of_int j) = Fin (2 powr of_int j)"
  using round_to_pow2[of binary64 j] by (simp add: binary64_def)

lemma binary64_pow2_overflow:
  "1024 \<le> j \<Longrightarrow> round_to binary64 (2 powr of_int j) = PInf"
  using round_to_pow2[of binary64 j] by (simp add: binary64_def)

lemma binary64_half: "round_to binary64 (1 / 2) = Fin (1 / 2)"
  using binary64_pow2_finite[of "- 1"] by (simp add: powr_minus_divide)

lemma binary64_one: "round_to binary64 1 = Fin 1"
  using binary64_pow2_finite[of 0] by simp

lemma binary64_two: "round_to binary64 2 = Fin 2"
  using binary64_pow2_finite[of 1] by simp

lemma half_huge: "huge / 2 = 2 powr of_int 699"
  by (simp add: huge_def)

lemma half_huge_squared: "huge * huge / 2 = 2 powr of_int 1399"
  by (simp add: huge_def)

lemma round_half_huge: "round_to binary64 (huge / 2) = Fin (huge / 2)"
  unfolding half_huge by (rule binary64_pow2_finite) simp_all

lemma round_half_huge_squared: "round_to binary64 (huge * huge / 2) = PInf"
  unfolding half_huge_squared by (rule binary64_pow2_overflow) simp

lemma energy_two: "energy_of binary64 1 1 2 0 = Fin 2"
  by (simp add: energy_of_def fl_add_def fl_mul_def binary64_half binary64_one binary64_two
        round_to_zero)

lemma energy_two': "energy_of binary64 1 1 0 2 = Fin 2"
  by (simp add: energy_of_def fl_add_def fl_mul_def binary64_half binary64_one binary64_two
        round_to_zero)

lemma energy_huge: "energy_of binary64 1 1 huge 0 = PInf"
proof -
  have a: "fl_mul binary64 (Fin 0.5) (Fin 1) = Fin (1 / 2)"
    by (simp add: fl_mul_def binary64_half)
  have "np_mul (Fin (1 / 2)) (Fin huge) = Fin (huge / 2)"
    by simp
  then have b: "fl_mul binary64 (Fin (1 / 2)) (Fin huge) = Fin (huge / 2)"
    by (simp only: fl_mul_def fl.simps round_half_huge)
  have "np_mul (Fin (huge / 2)) (Fin huge) = Fin (huge * huge / 2)"
    by simp
  then have c: "fl_mul binary64 (Fin (huge / 2)) (Fin huge) = PInf"
    by (simp only: fl_mul_def fl.simps round_half_huge_squared)
  have d: "fl_mul binary64 (fl_mul binary64 (Fin (1 / 2)) (Fin 0)) (Fin 0) = Fin 0"
    by (simp add: fl_mul_def round_to_zero)
  show ?thesis
    unfolding energy_of_def a b c d by (simp add: fl_add_def)
qed

subsection \<open>The drift\<close>

lemma map2_self_drift:
  "\<forall>v \<in> set d. is_finite v \<and> v \<noteq> Fin 0 \<Longrightarrow>
   map2 (fl_div fmt) (map2 (fl_sub fmt) d d) d = replicate (length d) (Fin 0)"
proof (induction d)
  case Nil
  then show ?case by simp
next
  case (Cons v d)
  then obtain a where v: "v = Fin a" "a \<noteq> 0"
    by (cases v) auto
  have "fl_div fmt (fl_sub fmt v v) v = Fin 0"
    using v by (simp add: fl_div_def fl_sub_def np_sub_def round_to_zero)
  with Cons show ?case by simp
qed

text \<open>
  Claim C7, amended. Let \<open>x\<close> be a trajectory whose entry \<open>x[t]\<close> exists and is a state
  of rank 1 or a batch of states of rank 2, so that \<open>total_energy\<close> returns its energy
  \<open>e\<close>, computed in the floating-point format of the array. If every element of \<open>e\<close> is
  finite and nonzero, \<open>relative_energy_drift(x, x, t)\<close> returns an array of the shape of
  \<open>e\<close> whose elements are all exactly 0.
\<close>

theorem relative_energy_drift_self:
  assumes "np_getitem x t = Inr state" and "total_energy fmt state 1 1 = Inr e"
    and "\<forall>v \<in> set (np_data e). is_finite v \<and> v \<noteq> Fin 0"
  shows "relative_energy_drift fmt x x t =
           Inr \<lparr>np_shape = np_shape e, np_data = replicate (length (np_data e)) (Fin 0)\<rparr>"
  using assms
  by (simp add: relative_energy_drift_def np_binop_same_shape map2_self_drift)

lemma series_last_state:
  "np_getitem (series [1, 2]) (- 1) = Inr \<lparr>np_shape = [2], np_data = [2, 0]\<rparr>"
  by (simp add: np_getitem_def series_def py_index_def)

lemma series_last_energy:
  "total_energy binary64 \<lparr>np_shape = [2], np_data = [2, 0]\<rparr> 1 1
     = Inr \<lparr>np_shape = [], np_data = [Fin 2]\<rparr>"
  by (simp add: total_energy_def np_getitem_def py_index_def np_binop_same_shape energy_two)

lemma batch_state:
  "np_getitem batch_series (- 1) = Inr \<lparr>np_shape = [2, 2], np_data = [2, 0, 0, 2]\<rparr>"
  by (simp add: np_getitem_def batch_series_def py_index_def)

lemma batch_energy:
  "total_energy binary64 \<lparr>np_shape = [2, 2], np_data = [2, 0, 0, 2]\<rparr> 1 1
     = Inr \<lparr>np_shape = [2], np_data = [Fin 2, Fin 2]\<rparr>"
  by (simp add: total_energy_def np_column_def py_index_def np_binop_same_shape upt_rec
        energy_two energy_two')

theorem relative_energy_drift_self_witness:
  "relative_energy_drift binary64 (series [1, 2]) (series [1, 2]) (- 1) =
     Inr \<lparr>np_shape = [], np_data = [Fin 0]\<rparr>
   \<and> relative_energy_drift binary64 batch_series batch_series (- 1) =
     Inr \<lparr>np_shape = [2], np_data = [Fin 0, Fin 0]\<rparr>"
  using relative_energy_drift_self[OF series_last_state series_last_energy]
    relative_energy_drift_self[OF batch_state batch_energy]
  by (simp add: numeral_2_eq_2)

text \<open>
  The claim as stated, for every nonzero energy, fails where the energy overflows. The
  position \<open>2 ^ 700\<close> is a double; half its square is \<open>2 ^ 1399\<close>, beyond the doubles, so
  the energy of the state is \<open>inf\<close>, which is not zero, and the drift of the trajectory
  against itself is \<open>inf - inf\<close> divided by \<open>inf\<close>, that is \<open>nan\<close>, and not 0.
\<close>

theorem relative_energy_drift_overflow:
  "np_getitem huge_series (- 1) = Inr \<lparr>np_shape = [2], np_data = [huge, 0]\<rparr>
   \<and> total_energy binary64 \<lparr>np_shape = [2], np_data = [huge, 0]\<rparr> 1 1
       = Inr \<lparr>np_shape = [], np_data = [PInf]\<rparr>
   \<and> relative_energy_drift binary64 huge_series huge_series (- 1)
       = Inr \<lparr>np_shape = [], np_data = [NaN]\<rparr>"
proof -
  have g: "np_getitem huge_series (- 1) = Inr \<lparr>np_shape = [2], np_data = [huge, 0]\<rparr>"
    by (simp add: np_getitem_def huge_series_def py_index_def)
  have e: "total_energy binary64 \<lparr>np_shape = [2], np_data = [huge, 0]\<rparr> 1 1
       = Inr \<lparr>np_shape = [], np_data = [PInf]\<rparr>"
    by (simp add: total_energy_def np_getitem_def py_index_def np_binop_same_shape energy_huge)
  have "relative_energy_drift binary64 huge_series huge_series (- 1)
       = Inr \<lparr>np_shape = [], np_data = [NaN]\<rparr>"
    by (simp add: relative_energy_drift_def g e np_binop_same_shape fl_sub_def fl_div_def
          np_sub_def)
  with g e show ?thesis by simp
qed

section \<open>The phase error\<close>

lemma np_binop_array1:
  "length xs = length ys \<Longrightarrow>
   np_binop f (np_map g (np_array1 xs)) (np_map h (np_array1 ys)) =
     Inr (np_array1 (map2 f (map g xs) (map h ys)))"
  by (simp add: np_binop_same_shape np_map_def np_array1_def)

lemma np_binop_array1_left:
  "length xs = length ys \<Longrightarrow>
   np_binop f (np_array1 xs) (np_map h (np_array1 ys)) =
     Inr (np_array1 (map2 f xs (map h ys)))"
  by (simp add: np_binop_same_shape np_map_def np_array1_def)

lemma weighted_eq:
  "length rs = length ps \<Longrightarrow>
   map2 np_mul (map2 np_sub (map reciprocal rs) (map reciprocal ps)) (map (\<lambda>c. Fin (real c)) rs)
   = map2 (\<lambda>r p. np_mul (np_sub (reciprocal r) (reciprocal p)) (Fin (real r))) rs ps"
  by (induction rs ps rule: list_induct2) simp_all

lemma relative_phase_error_retained:
  assumes "retained_crossings x_pred x_val = Inr (ref_n, pred_n)" "length ref_n = length pred_n"
  shows "relative_phase_error x_pred x_val =
     Inr (np_mean (np_array1
       (map2 (\<lambda>r p. np_mul (np_sub (reciprocal r) (reciprocal p)) (Fin (real r))) ref_n pred_n)))"
  using assms
  by (simp add: relative_phase_error_def np_binop_array1 np_binop_array1_left weighted_eq)

text \<open>The crossings of a signal of rank 1 are the indices whose sample and successor differ in sign.\<close>

lemma chunks_whole: "xs \<noteq> [] \<Longrightarrow> chunks (length xs) xs = [xs]"
  by (simp add: chunks_def)

lemma chunks_nil: "chunks m [] = []"
  by (simp add: chunks_def)

lemma length_diff1: "length (diff1 xs) = length xs - 1"
  by (simp add: diff1_def)

lemma nth_diff1: "p < length xs - 1 \<Longrightarrow> diff1 xs ! p = xs ! Suc p - xs ! p"
  by (simp add: diff1_def nth_tl)

lemma zero_crossings_one_dim:
  assumes "one_dim s"
  shows "zero_crossings s =
     Inr (filter (\<lambda>p. sgn (np_data s ! Suc p) \<noteq> sgn (np_data s ! p)) [0..<length (np_data s) - 1])"
proof (cases "np_data s = []")
  case True
  with assms show ?thesis
    by (simp add: zero_crossings_def np_diff_def np_map_def one_dim_def chunks_nil np_where0_def)
next
  case False
  then have c: "chunks (length (np_data s)) (map sgn (np_data s)) = [map sgn (np_data s)]"
    using chunks_whole[of "map sgn (np_data s)"] by simp
  have f: "filter (\<lambda>p. diff1 (map sgn (np_data s)) ! p \<noteq> 0) [0..<length (np_data s) - 1]
         = filter (\<lambda>p. sgn (np_data s ! Suc p) \<noteq> sgn (np_data s ! p)) [0..<length (np_data s) - 1]"
    by (rule filter_cong) (auto simp: nth_diff1)
  from assms c f show ?thesis
    by (simp add: zero_crossings_def np_diff_def np_map_def one_dim_def np_where0_def length_diff1)
qed

lemma zero_crossings_start:
  assumes "one_dim s" "sign_change_at_start s" "zero_crossings s = Inr cs"
  shows "cs \<noteq> [] \<and> hd cs = 0"
proof -
  have "[0..<length (np_data s) - 1] = 0 # [1..<length (np_data s) - 1]"
    using assms(2) by (simp add: sign_change_at_start_def upt_conv_Cons)
  then show ?thesis
    using assms by (auto simp: zero_crossings_one_dim sign_change_at_start_def)
qed

lemma column_three:
  "np_column (series [1, 1, - 1, 1, - 1]) 0 = Inr \<lparr>np_shape = [5], np_data = [1, 1, - 1, 1, - 1]\<rparr>"
  by (simp add: np_column_def series_def py_index_def upt_rec)

lemma column_one:
  "np_column (series [1, 1, 1, - 1, - 1]) 0 = Inr \<lparr>np_shape = [5], np_data = [1, 1, 1, - 1, - 1]\<rparr>"
  by (simp add: np_column_def series_def py_index_def upt_rec)

text \<open>
  Claim C8. Whatever the two numbers of detected crossings are, \<open>relative_phase_error\<close>
  keeps the first \<open>n\<close> crossings of each signal, \<open>n\<close> being the smaller of the two
  numbers, and returns (without raising) the mean over exactly these \<open>n\<close> pairs of
  \<open>(1/r - 1/p) * r\<close>.
\<close>

theorem relative_phase_error_truncates:
  assumes "np_column x_val 0 = Inr pos_val" and "zero_crossings pos_val = Inr ref_crossings"
    and "np_column x_pred 0 = Inr pos_pred" and "zero_crossings pos_pred = Inr pred_crossings"
    and "n = min (length pred_crossings) (length ref_crossings)"
  shows "retained_crossings x_pred x_val = Inr (take n ref_crossings, take n pred_crossings)
       \<and> length (take n ref_crossings) = n \<and> length (take n pred_crossings) = n
       \<and> relative_phase_error x_pred x_val =
           Inr (np_mean (np_array1
             (map2 (\<lambda>r p. np_mul (np_sub (reciprocal r) (reciprocal p)) (Fin (real r)))
                (take n ref_crossings) (take n pred_crossings))))"
proof -
  have r: "retained_crossings x_pred x_val = Inr (take n ref_crossings, take n pred_crossings)"
    using assms by (simp add: retained_crossings_def Let_def)
  have l: "length (take n ref_crossings) = length (take n pred_crossings)"
    using assms(5) by simp
  show ?thesis
    using r relative_phase_error_retained[OF r l] assms(5) by simp
qed

lemma crossings_three:
  "zero_crossings \<lparr>np_shape = [5], np_data = [1, 1, - 1, 1, - 1]\<rparr> = Inr [1, 2, 3]"
  by (simp add: zero_crossings_one_dim one_dim_def upt_rec)

lemma crossings_one:
  "zero_crossings \<lparr>np_shape = [5], np_data = [1, 1, 1, - 1, - 1]\<rparr> = Inr [2]"
  by (simp add: zero_crossings_one_dim one_dim_def upt_rec)

theorem relative_phase_error_truncates_witness:
  "retained_crossings (series [1, 1, 1, - 1, - 1]) (series [1, 1, - 1, 1, - 1]) = Inr ([1], [2])
   \<and> relative_phase_error (series [1, 1, 1, - 1, - 1]) (series [1, 1, - 1, 1, - 1])
       = Inr (Fin (1 / 2))"
  using relative_phase_error_truncates[OF column_three crossings_three column_one crossings_one,
      of 1]
  by (simp add: np_mean_def np_array1_def reciprocal_def np_sub_def)

subsection \<open>Division by a crossing at index 0\<close>

lemma np_add_finite: "is_finite (np_add a b) \<Longrightarrow> is_finite a \<and> is_finite b"
  by (cases a; cases b) simp_all

lemma np_neg_finite: "is_finite (np_neg a) = is_finite a"
  by (cases a) simp_all

lemma np_sub_finite: "is_finite (np_sub a b) \<Longrightarrow> is_finite a \<and> is_finite b"
  using np_add_finite[of a "np_neg b"] by (simp add: np_sub_def np_neg_finite)

lemma np_mul_finite_left: "is_finite (np_mul a (Fin r)) \<Longrightarrow> is_finite a"
  by (cases a) (auto simp: inf_of_sign_def split: if_splits)

lemma reciprocal_finite: "is_finite (reciprocal c) \<longleftrightarrow> c \<noteq> 0"
  by (simp add: reciprocal_def inf_of_sign_def)

lemma reciprocal_zero: "reciprocal 0 = PInf"
  by (simp add: reciprocal_def inf_of_sign_def)

lemma foldl_np_add_finite:
  "is_finite (foldl np_add a xs) \<Longrightarrow> is_finite a \<and> (\<forall>x \<in> set xs. is_finite x)"
proof (induction xs arbitrary: a)
  case Nil
  then show ?case by simp
next
  case (Cons x xs)
  from Cons.IH[of "np_add a x"] Cons.prems show ?case
    by (auto dest: np_add_finite)
qed

lemma foldl_np_add_all_finite:
  "is_finite a \<Longrightarrow> \<forall>x \<in> set xs. is_finite x \<Longrightarrow> is_finite (foldl np_add a xs)"
proof (induction xs arbitrary: a)
  case Nil
  then show ?case by simp
next
  case (Cons x xs)
  then have "is_finite (np_add a x)" by (cases a; cases x) simp_all
  with Cons show ?case by simp
qed

lemma np_div_finite_count:
  "is_finite (np_div s (Fin (real k))) \<Longrightarrow> is_finite s \<and> k \<noteq> 0"
  by (cases s) (auto simp: inf_of_sign_def split: if_splits)

lemma np_mean_finite:
  "is_finite (np_mean a) \<Longrightarrow> np_data a \<noteq> [] \<and> (\<forall>x \<in> set (np_data a). is_finite x)"
  unfolding np_mean_def
  by (auto dest!: np_div_finite_count foldl_np_add_finite)

lemma np_mean_all_finite:
  assumes "np_data a \<noteq> []" and "\<forall>x \<in> set (np_data a). is_finite x"
  shows "is_finite (np_mean a)"
proof -
  have "is_finite (foldl np_add (Fin 0) (np_data a))"
    using assms(2) by (intro foldl_np_add_all_finite) simp_all
  then obtain s where "foldl np_add (Fin 0) (np_data a) = Fin s"
    by (cases "foldl np_add (Fin 0) (np_data a)") simp_all
  with assms(1) show ?thesis by (simp add: np_mean_def)
qed

lemma weighted_finite:
  assumes "length rs = length ps"
    and "\<forall>x \<in> set (map2 (\<lambda>r p. np_mul (np_sub (reciprocal r) (reciprocal p)) (Fin (real r))) rs ps).
           is_finite x"
  shows "0 \<notin> set rs \<and> 0 \<notin> set ps"
  using assms
proof (induction rs ps rule: list_induct2)
  case Nil
  then show ?case by simp
next
  case (Cons r rs p ps)
  then have "is_finite (np_sub (reciprocal r) (reciprocal p))"
    by (auto dest: np_mul_finite_left)
  then have "r \<noteq> 0 \<and> p \<noteq> 0"
    by (auto dest!: np_sub_finite simp: reciprocal_finite)
  with Cons show ?case by auto
qed

lemma weighted_all_finite:
  assumes "length rs = length ps" "0 \<notin> set rs" "0 \<notin> set ps"
  shows "\<forall>x \<in> set (map2 (\<lambda>r p. np_mul (np_sub (reciprocal r) (reciprocal p)) (Fin (real r))) rs ps).
           is_finite x"
  using assms
  by (induction rs ps rule: list_induct2) (simp_all add: reciprocal_def np_sub_def)

lemma finite_result_iff:
  assumes "retained_crossings x_pred x_val = Inr (ref_n, pred_n)" "length ref_n = length pred_n"
  shows "\<exists>r. relative_phase_error x_pred x_val = Inr r \<and>
           (is_finite r \<longleftrightarrow> ref_n \<noteq> [] \<and> 0 \<notin> set ref_n \<and> 0 \<notin> set pred_n)"
proof -
  let ?w = "map2 (\<lambda>r p. np_mul (np_sub (reciprocal r) (reciprocal p)) (Fin (real r))) ref_n pred_n"
  have r: "relative_phase_error x_pred x_val = Inr (np_mean (np_array1 ?w))"
    by (rule relative_phase_error_retained[OF assms])
  have "is_finite (np_mean (np_array1 ?w))"
    if "ref_n \<noteq> []" "0 \<notin> set ref_n" "0 \<notin> set pred_n"
  proof (rule np_mean_all_finite)
    show "np_data (np_array1 ?w) \<noteq> []"
      using that(1) assms(2) by (cases ref_n; cases pred_n) (simp_all add: np_array1_def)
    show "\<forall>x\<in>set (np_data (np_array1 ?w)). is_finite x"
      using weighted_all_finite[OF assms(2) that(2,3)] by (simp add: np_array1_def)
  qed
  moreover have "ref_n \<noteq> [] \<and> 0 \<notin> set ref_n \<and> 0 \<notin> set pred_n"
    if "is_finite (np_mean (np_array1 ?w))"
  proof -
    from that have "?w \<noteq> [] \<and> (\<forall>x \<in> set ?w. is_finite x)"
      using np_mean_finite[of "np_array1 ?w"] by (simp add: np_array1_def)
    then show ?thesis
      using weighted_finite[OF assms(2)] by auto
  qed
  ultimately show ?thesis
    using r by blast
qed

text \<open>
  Claim C10. \<open>relative_phase_error\<close> takes the reciprocal of every retained crossing
  index, and the reciprocal of index 0 is a division by zero (\<open>inf\<close>): the result is
  finite exactly when at least one crossing is retained and none of the first \<open>n\<close>
  crossings of either signal is 0. Whenever a position signal changes sign between
  samples 0 and 1, \<open>zero_crossings\<close> reports index 0 first and the computation divides
  by zero: either index 0 is retained and its reciprocal is taken, or the other signal
  has no crossing, nothing is retained, and the mean over no element divides 0 by 0
  (\<open>nan\<close>). In both cases the result is not finite.
\<close>

theorem relative_phase_error_zero_index:
  assumes "np_column x_val 0 = Inr pos_val" and "zero_crossings pos_val = Inr ref_crossings"
    and "np_column x_pred 0 = Inr pos_pred" and "zero_crossings pos_pred = Inr pred_crossings"
    and "n = min (length pred_crossings) (length ref_crossings)"
  shows "(\<exists>r. relative_phase_error x_pred x_val = Inr r \<and>
            (is_finite r \<longleftrightarrow>
               0 < n \<and> 0 \<notin> set (take n ref_crossings) \<and> 0 \<notin> set (take n pred_crossings)))
       \<and> reciprocal 0 = PInf
       \<and> (n = 0 \<longrightarrow> relative_phase_error x_pred x_val = Inr NaN)
       \<and> (one_dim pos_val \<and> sign_change_at_start pos_val \<longrightarrow>
            ref_crossings \<noteq> [] \<and> hd ref_crossings = 0
            \<and> (0 \<in> set (take n ref_crossings) \<or> n = 0)
            \<and> (\<exists>r. relative_phase_error x_pred x_val = Inr r \<and> \<not> is_finite r))
       \<and> (one_dim pos_pred \<and> sign_change_at_start pos_pred \<longrightarrow>
            pred_crossings \<noteq> [] \<and> hd pred_crossings = 0
            \<and> (0 \<in> set (take n pred_crossings) \<or> n = 0)
            \<and> (\<exists>r. relative_phase_error x_pred x_val = Inr r \<and> \<not> is_finite r))"
proof -
  have ret: "retained_crossings x_pred x_val = Inr (take n ref_crossings, take n pred_crossings)"
    using assms by (simp add: retained_crossings_def Let_def)
  have len: "length (take n ref_crossings) = length (take n pred_crossings)"
    using assms(5) by simp
  have ne: "take n ref_crossings \<noteq> [] \<longleftrightarrow> 0 < n"
    using assms(5) by (cases ref_crossings) auto
  from finite_result_iff[OF ret len] obtain r where
    r: "relative_phase_error x_pred x_val = Inr r"
    and fin: "is_finite r \<longleftrightarrow>
       take n ref_crossings \<noteq> [] \<and> 0 \<notin> set (take n ref_crossings)
         \<and> 0 \<notin> set (take n pred_crossings)"
    by blast
  have empty: "relative_phase_error x_pred x_val = Inr NaN" if "n = 0"
    using relative_phase_error_retained[OF ret len] that
    by (simp add: np_mean_def np_array1_def inf_of_sign_def)
  have first: "0 \<in> set (take n cs) \<or> n = 0" if "cs \<noteq> []" "hd cs = 0" for cs :: "nat list"
    using that by (cases cs; cases n) simp_all
  have a: "ref_crossings \<noteq> [] \<and> hd ref_crossings = 0
             \<and> (0 \<in> set (take n ref_crossings) \<or> n = 0)"
    if "one_dim pos_val" "sign_change_at_start pos_val"
    using zero_crossings_start[OF that assms(2)] first by simp
  have b: "pred_crossings \<noteq> [] \<and> hd pred_crossings = 0
             \<and> (0 \<in> set (take n pred_crossings) \<or> n = 0)"
    if "one_dim pos_pred" "sign_change_at_start pos_pred"
    using zero_crossings_start[OF that assms(4)] first by simp
  show ?thesis
    using r fin ne a b empty reciprocal_zero by auto
qed

lemma column_flip:
  "np_column (series [1, - 1, 1]) 0 = Inr \<lparr>np_shape = [3], np_data = [1, - 1, 1]\<rparr>"
  by (simp add: np_column_def series_def py_index_def upt_rec)

lemma crossings_flip:
  "zero_crossings \<lparr>np_shape = [3], np_data = [1, - 1, 1]\<rparr> = Inr [0, 1]"
  by (simp add: zero_crossings_one_dim one_dim_def upt_rec)

lemma column_late:
  "np_column (series [1, 1, - 1]) 0 = Inr \<lparr>np_shape = [3], np_data = [1, 1, - 1]\<rparr>"
  by (simp add: np_column_def series_def py_index_def upt_rec)

lemma crossings_late:
  "zero_crossings \<lparr>np_shape = [3], np_data = [1, 1, - 1]\<rparr> = Inr [1]"
  by (simp add: zero_crossings_one_dim one_dim_def upt_rec)

lemma column_drop:
  "np_column (series [1, - 1]) 0 = Inr \<lparr>np_shape = [2], np_data = [1, - 1]\<rparr>"
  by (simp add: np_column_def series_def py_index_def upt_rec)

lemma crossings_drop:
  "zero_crossings \<lparr>np_shape = [2], np_data = [1, - 1]\<rparr> = Inr [0]"
  by (simp add: zero_crossings_one_dim one_dim_def upt_rec)

lemma column_still:
  "np_column (series [1, 1]) 0 = Inr \<lparr>np_shape = [2], np_data = [1, 1]\<rparr>"
  by (simp add: np_column_def series_def py_index_def upt_rec)

lemma crossings_still:
  "zero_crossings \<lparr>np_shape = [2], np_data = [1, 1]\<rparr> = Inr []"
  by (simp add: zero_crossings_one_dim one_dim_def upt_rec)

theorem relative_phase_error_zero_index_witness:
  "sign_change_at_start \<lparr>np_shape = [3], np_data = [1, - 1, 1]\<rparr>
   \<and> reciprocal 0 = PInf
   \<and> (\<exists>r. relative_phase_error (series [1, 1, - 1]) (series [1, - 1, 1]) = Inr r
          \<and> \<not> is_finite r)
   \<and> sign_change_at_start \<lparr>np_shape = [2], np_data = [1, - 1]\<rparr>
   \<and> relative_phase_error (series [1, 1]) (series [1, - 1]) = Inr NaN"
  using relative_phase_error_zero_index[OF column_flip crossings_flip column_late crossings_late,
      of 1]
    relative_phase_error_zero_index[OF column_drop crossings_drop column_still crossings_still,
      of 0]
  by (simp add: one_dim_def sign_change_at_start_def)

section \<open>The results log\<close>

lemma count_list_append: "count_list (xs @ ys) c = count_list xs c + count_list ys c"
  by (induction xs) simp_all

lemma data_row_one_line:
  assumes "length cells = 8" "\<forall>c \<in> set cells. CHR 0x0A \<notin> set c"
  shows "count_list (data_row cells) (CHR 0x0A) = 1"
proof -
  from assms(1) obtain a b c d e f g h where cells: "cells = [a, b, c, d, e, f, g, h]"
    by (auto simp: length_Suc_conv eval_nat_numeral)
  have z: "count_list s (CHR 0x0A) = 0" if "s \<in> set cells" for s
    using assms(2) that by (simp add: count_list_0_iff)
  show ?thesis
    using z by (simp add: cells data_row_def newline_def count_list_append)
qed

text \<open>
  Claim C9, amended. A call appends exactly one data row to the results log and leaves
  every other file alone. When the file does not exist, the call first writes the header
  row, which reads
  \<open>wall_time,epoch,energy_drift_interp,energy_drift_extrap, phase_error_interp,phase_error_extrap, traj_err_interp, traj_err_extrap\<close>
  (a space follows three of its commas); when the file exists no header is written. Two
  calls on a fresh path leave the header once, followed by the two rows. A row whose
  eight rendered values hold no line break is one line.
\<close>

theorem write_results_log:
  "(\<not> isfile fs p \<longrightarrow> write_results fs p row p = Some (title_string @ row))
   \<and> (\<forall>old. fs p = Some old \<longrightarrow> write_results fs p row p = Some (old @ row))
   \<and> (\<forall>q. q \<noteq> p \<longrightarrow> write_results fs p row q = fs q)
   \<and> (\<not> isfile fs p \<longrightarrow>
        write_results (write_results fs p row) p row' p = Some (title_string @ row @ row'))
   \<and> (length cells = 8 \<and> (\<forall>c \<in> set cells. CHR 0x0A \<notin> set c) \<longrightarrow>
        count_list (data_row cells) (CHR 0x0A) = 1)
   \<and> title_string =
        ''wall_time,epoch,energy_drift_interp,energy_drift_extrap, phase_error_interp,phase_error_extrap, traj_err_interp, traj_err_extrap''
        @ newline"
  using data_row_one_line[of cells]
  by (auto simp: write_results_def isfile_def append_file_def title_string_def)

theorem write_results_log_witness:
  "write_results (write_results Map.empty ''results.csv'' ''a'') ''results.csv'' ''b'' ''results.csv''
     = Some (title_string @ ''a'' @ ''b'')
   \<and> count_list (data_row [''1.5'', ''0'', ''0.0'', ''0.0'', ''0.1'', ''0.1'', ''0.2'', ''0.2''])
        (CHR 0x0A) = 1"
  using write_results_log[of Map.empty "''results.csv''" "''a''" "''b''"
      "[''1.5'', ''0'', ''0.0'', ''0.0'', ''0.1'', ''0.1'', ''0.2'', ''0.2'']"]
  by (simp add: isfile_def)

text \<open>
  The header the claim quotes has no space after any comma; the header written to a
  fresh file differs from it.
\<close>

theorem header_not_as_quoted:
  "write_results Map.empty ''results.csv''
     (data_row [''1.5'', ''0'', ''0.0'', ''0.0'', ''0.1'', ''0.1'', ''0.2'', ''0.2'']) ''results.csv''
   \<noteq> Some (''wall_time,epoch,energy_drift_interp,energy_drift_extrap,phase_error_interp,phase_error_extrap,traj_err_interp,traj_err_extrap''
        @ newline
        @ data_row [''1.5'', ''0'', ''0.0'', ''0.0'', ''0.1'', ''0.1'', ''0.2'', ''0.2''])"
  by (simp add: write_results_def isfile_def append_file_def title_string_def newline_def)

section \<open>The dataset\<close>

lemma mapE_length: "mapE f xs = Inr ys \<Longrightarrow> length ys = length xs"
  by (induction xs arbitrary: ys) (auto simp: bindE_eq_Inr)

lemma mapE_member:
  "mapE f xs = Inr ys \<Longrightarrow> y \<in> set ys \<Longrightarrow> \<exists>x \<in> set xs. f x = Inr y"
  by (induction xs arbitrary: ys) (auto simp: bindE_eq_Inr)

lemma np_stack_shape:
  "np_stack arrays = Inr a \<Longrightarrow> arrays \<noteq> [] \<and> np_shape a = length arrays # np_shape (hd arrays)"
  by (cases arrays) (auto simp: np_stack_def split: if_splits)

lemma const_step: "sim_step (const_simulator x v) dt S = Inr a \<Longrightarrow> np_shape a = [nat S, 2]"
  by (auto simp: const_simulator_def split: if_splits)

lemma const_call: "sim_call (const_simulator x v) t a = Inr b \<Longrightarrow> np_shape b = np_shape a"
  by (auto simp: const_simulator_def bindE_eq_Inr)

lemma const_pair:
  "simulate_pair (const_simulator x v) dt 2 =
     Inr (\<lparr>np_shape = [2, 2], np_data = [x, case_option 0 id v, x, case_option 0 id v]\<rparr>,
          \<lparr>np_shape = [2, 2], np_data = [case_option 0 id v, - x, case_option 0 id v, - x]\<rparr>)"
  by (simp add: simulate_pair_def const_simulator_def np_column_def py_index_def upt_rec
        numeral_2_eq_2)

lemma demo_run:
  "create_dataset const_simulator (\<lambda>i. 1 / 2) 1 2 save d =
     Inr ((demo_x_train, demo_y_train, demo_x_val, demo_y_val),
          if save
          then np_save (np_save (np_save (np_save d x_train_path demo_x_train)
                 y_train_path demo_y_train) x_val_path demo_x_val) y_val_path demo_y_val
          else d)"
  by (simp add: create_dataset_def const_pair np_stack_def np_array_of_singleton_def
        demo_x_train_def demo_y_train_def demo_x_val_def demo_y_val_def numeral_2_eq_2)

text \<open>
  Claim C5, as the code has it. Let the simulator return a trajectory of shape
  (samples_per_series, 2) and a derivative of the shape of its input. When
  \<open>create_dataset\<close> returns, \<open>x_train\<close> and \<open>y_train\<close> have shape
  (n_series, samples_per_series, 2) and \<open>x_val\<close> has shape (2, samples_per_series, 2),
  but \<open>y_val\<close> has the four axes (2, 1, samples_per_series, 2): each validation target
  is wrapped in a list before \<open>np.array\<close>, which the training targets are not.
\<close>

theorem create_dataset_shapes:
  assumes step: "\<And>x v dt a. sim_step (MSD x v) dt S = Inr a \<Longrightarrow> np_shape a = [nat S, 2]"
    and call: "\<And>x v t a b. sim_call (MSD x v) t a = Inr b \<Longrightarrow> np_shape b = np_shape a"
    and run: "create_dataset MSD rng n S save d = Inr ((x_train, y_train, x_val, y_val), d')"
  shows "np_shape x_train = [nat n, nat S, 2] \<and> np_shape y_train = [nat n, nat S, 2]
       \<and> np_shape x_val = [2, nat S, 2] \<and> np_shape y_val = [2, 1, nat S, 2]"
proof -
  let ?dt = "(real_of_int S - 1) * 0.01"
  let ?x0 = "map rng [0..<nat (n div 2)] @ map (\<lambda>i. rng i + np_pi - 1) [nat (n div 2)..<nat n]"
  from run obtain train xv1 yv1 xv2 yv2 where
    train: "mapE (\<lambda>i. simulate_pair (MSD (?x0 ! i) None) ?dt S) [0..<nat n] = Inr train"
    and xt: "np_stack (map fst train) = Inr x_train"
    and yt: "np_stack (map snd train) = Inr y_train"
    and v1: "simulate_pair (MSD 5 (Some 0.5)) ?dt S = Inr (xv1, yv1)"
    and v2: "simulate_pair (MSD 1.5 (Some 0.5)) ?dt S = Inr (xv2, yv2)"
    and xv: "np_stack [xv1, xv2] = Inr x_val"
    and yv: "np_stack [np_array_of_singleton yv1, np_array_of_singleton yv2] = Inr y_val"
    by (auto simp: create_dataset_def Let_def bindE_eq_Inr split: if_splits prod.splits)
  have len: "length train = nat n"
    using mapE_length[OF train] by simp
  have each: "np_shape (fst p) = [nat S, 2] \<and> np_shape (snd p) = [nat S, 2]"
    if "p \<in> set train" for p
  proof -
    from mapE_member[OF train that] obtain i where
      "simulate_pair (MSD (?x0 ! i) None) ?dt S = Inr (fst p, snd p)" by auto
    then show ?thesis
      using step call by (auto simp: simulate_pair_def bindE_eq_Inr)
  qed
  from np_stack_shape[OF xt] have ne: "train \<noteq> []" by simp
  then have hd_in: "hd train \<in> set train" by simp
  have "np_shape x_train = [nat n, nat S, 2]"
    using np_stack_shape[OF xt] len each[OF hd_in] ne by (simp add: hd_map)
  moreover have "np_shape y_train = [nat n, nat S, 2]"
    using np_stack_shape[OF yt] len each[OF hd_in] ne by (simp add: hd_map)
  moreover have "np_shape x_val = [2, nat S, 2]"
    using np_stack_shape[OF xv] v1 step call by (auto simp: simulate_pair_def bindE_eq_Inr)
  moreover have "np_shape y_val = [2, 1, nat S, 2]"
    using np_stack_shape[OF yv] v1 step call
    by (auto simp: simulate_pair_def bindE_eq_Inr np_array_of_singleton_def)
  ultimately show ?thesis by simp
qed

theorem create_dataset_shapes_witness:
  "create_dataset const_simulator (\<lambda>i. 1 / 2) 1 2 False Map.empty =
     Inr ((demo_x_train, demo_y_train, demo_x_val, demo_y_val), Map.empty)
   \<and> np_shape demo_x_val = [2, 2, 2] \<and> np_shape demo_y_val = [2, 1, 2, 2]"
  using create_dataset_shapes[of const_simulator 2, OF const_step const_call
      demo_run[of False Map.empty]]
    demo_run[of False Map.empty]
  by simp

subsection \<open>Saving and loading\<close>

lemma paths_distinct:
  "x_train_path \<noteq> y_train_path" "x_train_path \<noteq> x_val_path" "x_train_path \<noteq> y_val_path"
  "y_train_path \<noteq> x_val_path" "y_train_path \<noteq> y_val_path" "x_val_path \<noteq> y_val_path"
  by (simp_all add: x_train_path_def y_train_path_def x_val_path_def y_val_path_def)

lemma load_saved:
  "load_dataset f32 (np_save (np_save (np_save (np_save d x_train_path a1) y_train_path a2)
       x_val_path a3) y_val_path a4)
   = Inr (np_map f32 a1, np_map f32 a2, np_map f32 a3, np_map f32 a4)"
  using paths_distinct
  by (simp add: load_dataset_def np_load_def np_save_def)

lemma create_dataset_saved:
  assumes "create_dataset MSD rng n S True d = Inr ((x_train, y_train, x_val, y_val), d')"
  shows "d' = np_save (np_save (np_save (np_save d x_train_path x_train) y_train_path y_train)
       x_val_path x_val) y_val_path y_val"
  using assms
  by (auto simp: create_dataset_def Let_def bindE_eq_Inr split: if_splits prod.splits)

text \<open>
  Claim C6. When \<open>create_dataset\<close> with \<open>save_to_disk=True\<close> returns four arrays and
  leaves the disk \<open>d'\<close>, \<open>load_dataset\<close> on \<open>d'\<close> returns these four arrays with every
  element cast to float32 and nothing else changed: same shapes, same order of elements.
\<close>

theorem save_load_roundtrip:
  assumes "create_dataset MSD rng n S True d = Inr ((x_train, y_train, x_val, y_val), d')"
  shows "load_dataset float32 d' =
           Inr (np_map float32 x_train, np_map float32 y_train,
                np_map float32 x_val, np_map float32 y_val)"
  using create_dataset_saved[OF assms] load_saved by simp

theorem save_load_roundtrip_witness:
  "create_dataset const_simulator (\<lambda>i. 1 / 2) 1 2 True Map.empty =
     Inr ((demo_x_train, demo_y_train, demo_x_val, demo_y_val), demo_disk)
   \<and> load_dataset (\<lambda>v. v) demo_disk =
       Inr (np_map (\<lambda>v. v) demo_x_train, np_map (\<lambda>v. v) demo_y_train,
            np_map (\<lambda>v. v) demo_x_val, np_map (\<lambda>v. v) demo_y_val)"
proof -
  have run: "create_dataset const_simulator (\<lambda>i. 1 / 2) 1 2 True Map.empty =
     Inr ((demo_x_train, demo_y_train, demo_x_val, demo_y_val), demo_disk)"
    by (simp add: demo_run demo_disk_def)
  show ?thesis
    using run save_load_roundtrip[OF run, of "\<lambda>v. v"] by simp
qed

section \<open>The adjoint backward pass\<close>

subsection \<open>One segment and the loop\<close>

lemma mapE_all2:
  "mapE f xs = Inr ys \<Longrightarrow> list_all2 (\<lambda>x y. f x = Inr y) xs ys"
  by (induction xs arbitrary: ys) (auto simp: bindE_eq_Inr)

lemma grad_segment_facts:
  assumes "grad_segment func tg odeint ans t go fp i st = Inr st'"
  shows "\<exists>ans_i dLd adj_time1 adj_params1 t_i t_prev t_pair aug_ans adj_y1.
      mapE (\<lambda>a. tf_getitem a (int i)) ans = Inr ans_i
    \<and> time_contribution func t go i ans_i = Inr dLd
    \<and> tf_sub (cast_double (adj_time st)) dLd = Inr adj_time1
    \<and> tf_getitem t (int i) = Inr t_i \<and> tf_getitem t (int i - 1) = Inr t_prev
    \<and> tf_stack [t_i, t_prev] = Inr t_pair
    \<and> solver_calls st' = solver_calls st @ [(ans_i @ adj_y st @ [adj_time1, adj_params1], t_pair)]
    \<and> odeint (augmented_dynamics func tg (length ans) fp)
          (ans_i @ adj_y st @ [adj_time1, adj_params1]) t_pair = Inr aug_ans
    \<and> unpack_aug_ans (length ans) aug_ans = Inr (adj_y1, adj_time st', adj_params st')
    \<and> correct_adj_y adj_y1 go i = Inr (adj_y st')
    \<and> time_vjps st' = time_vjps st @ [dLd]"
  using assms
  unfolding grad_segment_def Let_def
  by (auto simp: bindE_eq_Inr split: prod.splits)

lemma adj_y_of_call_aug:
  "length ans_i = n \<Longrightarrow> adj_y_of_call n (ans_i @ ys @ [a, b]) = ys"
  by (simp add: adj_y_of_call_def butlast_append)

lemma adj_time_of_call_aug:
  "adj_time_of_call (ans_i @ ys @ [a, b]) = a"
  by (simp add: adj_time_of_call_def butlast_append)

lemma grad_segment_call:
  assumes "grad_segment func tg odeint ans t go fp i st = Inr st'"
  shows "\<exists>c. solver_calls st' = solver_calls st @ [c]
           \<and> adj_y_of_call (length ans) (fst c) = adj_y st
           \<and> segment_ok func tg odeint ans t go fp i c (adj_y st')"
proof -
  from grad_segment_facts[OF assms] obtain ans_i dLd adj_time1 adj_params1 t_i t_prev t_pair
      aug_ans adj_y1 where
    f: "mapE (\<lambda>a. tf_getitem a (int i)) ans = Inr ans_i"
      "tf_getitem t (int i) = Inr t_i" "tf_getitem t (int i - 1) = Inr t_prev"
      "tf_stack [t_i, t_prev] = Inr t_pair"
      "solver_calls st' = solver_calls st @ [(ans_i @ adj_y st @ [adj_time1, adj_params1], t_pair)]"
      "odeint (augmented_dynamics func tg (length ans) fp)
          (ans_i @ adj_y st @ [adj_time1, adj_params1]) t_pair = Inr aug_ans"
      "unpack_aug_ans (length ans) aug_ans = Inr (adj_y1, adj_time st', adj_params st')"
      "correct_adj_y adj_y1 go i = Inr (adj_y st')"
    by blast
  let ?c = "(ans_i @ adj_y st @ [adj_time1, adj_params1], t_pair)"
  have "adj_y_of_call (length ans) (fst ?c) = adj_y st"
    using mapE_length[OF f(1)] by (simp add: adj_y_of_call_aug)
  moreover have "segment_ok func tg odeint ans t go fp i ?c (adj_y st')"
    unfolding segment_ok_def using f by auto
  ultimately show ?thesis using f(5) by blast
qed

lemma grad_loop_trace:
  assumes "grad_loop func tg odeint ans t go fp idxs st = Inr st'"
  shows "\<exists>cs. solver_calls st' = solver_calls st @ cs \<and> length cs = length idxs
     \<and> (idxs \<noteq> [] \<longrightarrow> adj_y_of_call (length ans) (fst (hd cs)) = adj_y st)
     \<and> (\<forall>k<length idxs. segment_ok func tg odeint ans t go fp (idxs ! k) (cs ! k)
           (if Suc k < length idxs then adj_y_of_call (length ans) (fst (cs ! Suc k))
            else adj_y st'))"
  using assms
proof (induction idxs arbitrary: st)
  case Nil
  then show ?case by simp
next
  case (Cons i rest)
  from Cons.prems obtain st1 where
    seg: "grad_segment func tg odeint ans t go fp i st = Inr st1"
    and loop: "grad_loop func tg odeint ans t go fp rest st1 = Inr st'"
    by (auto simp: bindE_eq_Inr)
  from grad_segment_call[OF seg] obtain c where
    c: "solver_calls st1 = solver_calls st @ [c]"
      "adj_y_of_call (length ans) (fst c) = adj_y st"
      "segment_ok func tg odeint ans t go fp i c (adj_y st1)"
    by blast
  from Cons.IH[OF loop] obtain cs where
    cs: "solver_calls st' = solver_calls st1 @ cs" "length cs = length rest"
      "rest \<noteq> [] \<longrightarrow> adj_y_of_call (length ans) (fst (hd cs)) = adj_y st1"
      "\<forall>k<length rest. segment_ok func tg odeint ans t go fp (rest ! k) (cs ! k)
           (if Suc k < length rest then adj_y_of_call (length ans) (fst (cs ! Suc k))
            else adj_y st')"
    by blast
  have last_state: "rest = [] \<Longrightarrow> st' = st1"
    using loop by simp
  have step: "segment_ok func tg odeint ans t go fp ((i # rest) ! k) ((c # cs) ! k)
           (if Suc k < length (i # rest) then adj_y_of_call (length ans) (fst ((c # cs) ! Suc k))
            else adj_y st')" if "k < length (i # rest)" for k
  proof (cases k)
    case 0
    show ?thesis
    proof (cases "rest = []")
      case True
      with 0 c(3) last_state show ?thesis by simp
    next
      case False
      then have "cs \<noteq> []" using cs(2) by auto
      then have "cs ! 0 = hd cs" by (simp add: hd_conv_nth)
      with 0 False c(3) cs(3) show ?thesis by simp
    qed
  next
    case (Suc j)
    with that have "j < length rest" by simp
    with cs(4) have "segment_ok func tg odeint ans t go fp (rest ! j) (cs ! j)
           (if Suc j < length rest then adj_y_of_call (length ans) (fst (cs ! Suc j))
            else adj_y st')" by blast
    with Suc show ?thesis by (simp split: if_splits)
  qed
  show ?case
    apply (rule exI[of _ "c # cs"])
    using c(1,2) cs(1,2) step by simp
qed

lemma rev_upt_nth: "k < T - 1 \<Longrightarrow> rev [1..<T] ! k = T - 1 - k"
  by (simp add: rev_nth)

lemma grad_run:
  assumes "grad func tg odeint ans t go variables = Inr res" and "n_outputs ans = Inr T"
  shows "\<exists>vars adj_y0 st time_grads.
      variables = Some vars
    \<and> mapE (\<lambda>g. tf_getitem g (- 1)) go = Inr adj_y0
    \<and> grad_loop func tg odeint ans t go vars (rev [1..<T])
         \<lparr>adj_y = adj_y0, adj_time = move_to_device (tf_scalar 0 (t_dtype t)) (t_device t),
          adj_params = tf_zeros_like (flatten vars), time_vjps = [], solver_calls = []\<rparr> = Inr st
    \<and> tf_concat (rev (time_vjps st @ [adj_time st])) = Inr time_grads
    \<and> input_grads res = adj_y st @ [time_grads]
    \<and> odeint_calls res = solver_calls st"
  using assms
  by (cases variables) (auto simp: grad_def Let_def bindE_eq_Inr)

lemma tf_stack_pair_shape: "tf_stack [a, b] = Inr p \<Longrightarrow> t_shape p = 2 # t_shape a"
  by (auto simp: tf_stack_def split: if_splits)

lemma correct_adj_y_adds:
  "correct_adj_y adj_y1 go i = Inr nxt \<Longrightarrow>
   list_all2 (\<lambda>(a, g) r. \<exists>g_prev. tf_getitem g (int i - 1) = Inr g_prev \<and> tf_add a g_prev = Inr r)
     (zip adj_y1 go) nxt"
  unfolding correct_adj_y_def
  by (drule mapE_all2, erule list_all2_mono) (auto simp: bindE_eq_Inr)

lemma demo_grad:
  "grad (linear_func 1 1) (linear_tape 1) euler_odeint [vec [1, 2, 4]] (vec [0, 1 / 2, 1])
     [vec [0, 0, 1]] (Some [scalar64 1, scalar64 1]) = Inr demo_res"
  by code_simp

lemma demo_outputs: "n_outputs [vec [1, 2, 4]] = Inr 3"
  by (simp add: n_outputs_def vec_def)

text \<open>
  Claim C1. When the backward pass over \<open>T\<close> output times returns, it has called the
  solver exactly \<open>T - 1\<close> times. The call number \<open>k\<close> (from 0) is the one for the output
  index \<open>i = T - 1 - k\<close>, so the indices run from \<open>T - 1\<close> down to 1; it integrates the
  augmented dynamics over the two time points \<open>[t[i], t[i - 1]]\<close>; and the adjoint of the
  state that enters the next call (after the last call: the one returned) is the
  solver's result at the second time point plus the incoming gradient at index \<open>i - 1\<close>.
\<close>

theorem adjoint_solver_invocations:
  assumes run: "grad func tape_gradient odeint ans t grad_output variables = Inr res"
    and T: "n_outputs ans = Inr T"
  shows "\<exists>f_params. variables = Some f_params
     \<and> length (odeint_calls res) = T - 1
     \<and> (\<forall>k<T - 1.
          (\<exists>t_i t_prev. tf_getitem t (int (T - 1 - k)) = Inr t_i
              \<and> tf_getitem t (int (T - 1 - k) - 1) = Inr t_prev
              \<and> tf_stack [t_i, t_prev] = Inr (snd (odeint_calls res ! k))
              \<and> t_shape (snd (odeint_calls res ! k)) = 2 # t_shape t_i)
          \<and> (\<exists>aug_ans adj_y1 adj_time1 adj_params1.
               odeint (augmented_dynamics func tape_gradient (length ans) f_params)
                 (fst (odeint_calls res ! k)) (snd (odeint_calls res ! k)) = Inr aug_ans
             \<and> unpack_aug_ans (length ans) aug_ans = Inr (adj_y1, adj_time1, adj_params1)
             \<and> list_all2 (\<lambda>(a, g) r. \<exists>g_prev. tf_getitem g (int (T - 1 - k) - 1) = Inr g_prev
                                          \<and> tf_add a g_prev = Inr r)
                  (zip adj_y1 grad_output)
                  (if Suc k < T - 1
                   then adj_y_of_call (length ans) (fst (odeint_calls res ! Suc k))
                   else butlast (input_grads res))))"
proof -
  from grad_run[OF run T] obtain vars adj_y0 st time_grads where
    v: "variables = Some vars"
    and loop: "grad_loop func tape_gradient odeint ans t grad_output vars (rev [1..<T])
         \<lparr>adj_y = adj_y0, adj_time = move_to_device (tf_scalar 0 (t_dtype t)) (t_device t),
          adj_params = tf_zeros_like (flatten vars), time_vjps = [], solver_calls = []\<rparr> = Inr st"
    and res: "input_grads res = adj_y st @ [time_grads]" "odeint_calls res = solver_calls st"
    by blast
  from grad_loop_trace[OF loop] have
    len: "length (solver_calls st) = T - 1"
    and segs: "\<forall>k<T - 1. segment_ok func tape_gradient odeint ans t grad_output vars
           (rev [1..<T] ! k) (solver_calls st ! k)
           (if Suc k < T - 1 then adj_y_of_call (length ans) (fst (solver_calls st ! Suc k))
            else adj_y st)"
    by auto
  have "(\<exists>t_i t_prev. tf_getitem t (int (T - 1 - k)) = Inr t_i
              \<and> tf_getitem t (int (T - 1 - k) - 1) = Inr t_prev
              \<and> tf_stack [t_i, t_prev] = Inr (snd (odeint_calls res ! k))
              \<and> t_shape (snd (odeint_calls res ! k)) = 2 # t_shape t_i)
          \<and> (\<exists>aug_ans adj_y1 adj_time1 adj_params1.
               odeint (augmented_dynamics func tape_gradient (length ans) vars)
                 (fst (odeint_calls res ! k)) (snd (odeint_calls res ! k)) = Inr aug_ans
             \<and> unpack_aug_ans (length ans) aug_ans = Inr (adj_y1, adj_time1, adj_params1)
             \<and> list_all2 (\<lambda>(a, g) r. \<exists>g_prev. tf_getitem g (int (T - 1 - k) - 1) = Inr g_prev
                                          \<and> tf_add a g_prev = Inr r)
                  (zip adj_y1 grad_output)
                  (if Suc k < T - 1
                   then adj_y_of_call (length ans) (fst (odeint_calls res ! Suc k))
                   else butlast (input_grads res)))" if k: "k < T - 1" for k
  proof -
    let ?nxt = "if Suc k < T - 1 then adj_y_of_call (length ans) (fst (solver_calls st ! Suc k))
            else adj_y st"
    from segs k have "segment_ok func tape_gradient odeint ans t grad_output vars
           (T - 1 - k) (solver_calls st ! k) ?nxt"
      using rev_upt_nth[OF k] by auto
    then obtain t_i t_prev aug_ans adj_y1 adj_time1 adj_params1 where
      s: "tf_getitem t (int (T - 1 - k)) = Inr t_i"
        "tf_getitem t (int (T - 1 - k) - 1) = Inr t_prev"
        "tf_stack [t_i, t_prev] = Inr (snd (solver_calls st ! k))"
        "odeint (augmented_dynamics func tape_gradient (length ans) vars)
            (fst (solver_calls st ! k)) (snd (solver_calls st ! k)) = Inr aug_ans"
        "unpack_aug_ans (length ans) aug_ans = Inr (adj_y1, adj_time1, adj_params1)"
        "correct_adj_y adj_y1 grad_output (T - 1 - k) = Inr ?nxt"
      unfolding segment_ok_def by blast
    have nxt: "?nxt = (if Suc k < T - 1
                   then adj_y_of_call (length ans) (fst (odeint_calls res ! Suc k))
                   else butlast (input_grads res))"
      using res by simp
    show ?thesis
      using s(1-5) tf_stack_pair_shape[OF s(3)] correct_adj_y_adds[OF s(6)] res(2)
      unfolding nxt by auto
  qed
  with v len res(2) show ?thesis by simp
qed

theorem adjoint_solver_invocations_witness:
  "grad (linear_func 1 1) (linear_tape 1) euler_odeint [vec [1, 2, 4]] (vec [0, 1 / 2, 1])
     [vec [0, 0, 1]] (Some [scalar64 1, scalar64 1]) = Inr demo_res
   \<and> length (odeint_calls demo_res) = 2
   \<and> t_shape (snd (odeint_calls demo_res ! 0)) = [2]
   \<and> t_shape (snd (odeint_calls demo_res ! 1)) = [2]"
  using adjoint_solver_invocations[OF demo_grad demo_outputs] demo_grad
  by (simp add: demo_res_def vec_def)

subsection \<open>The gradient with respect to the time points\<close>

lemma grad_segment_time:
  assumes "grad_segment func tg odeint ans t go fp i st = Inr st'"
  shows "\<exists>c d. solver_calls st' = solver_calls st @ [c] \<and> time_vjps st' = time_vjps st @ [d]
           \<and> time_segment_ok func tg odeint ans t go fp i c (adj_time st) d (adj_time st')"
proof -
  from grad_segment_facts[OF assms] obtain ans_i dLd adj_time1 adj_params1 t_i t_prev t_pair
      aug_ans adj_y1 where
    f: "mapE (\<lambda>a. tf_getitem a (int i)) ans = Inr ans_i"
      "time_contribution func t go i ans_i = Inr dLd"
      "tf_sub (cast_double (adj_time st)) dLd = Inr adj_time1"
      "solver_calls st' = solver_calls st @ [(ans_i @ adj_y st @ [adj_time1, adj_params1], t_pair)]"
      "odeint (augmented_dynamics func tg (length ans) fp)
          (ans_i @ adj_y st @ [adj_time1, adj_params1]) t_pair = Inr aug_ans"
      "unpack_aug_ans (length ans) aug_ans = Inr (adj_y1, adj_time st', adj_params st')"
      "time_vjps st' = time_vjps st @ [dLd]"
    by blast
  let ?c = "(ans_i @ adj_y st @ [adj_time1, adj_params1], t_pair)"
  have "time_segment_ok func tg odeint ans t go fp i ?c (adj_time st) dLd (adj_time st')"
    unfolding time_segment_ok_def using f by (auto simp: adj_time_of_call_aug)
  with f(4,7) show ?thesis by blast
qed

lemma grad_loop_time:
  assumes "grad_loop func tg odeint ans t go fp idxs st = Inr st'"
  shows "\<exists>cs ds ats. solver_calls st' = solver_calls st @ cs \<and> time_vjps st' = time_vjps st @ ds
     \<and> length cs = length idxs \<and> length ds = length idxs \<and> length ats = Suc (length idxs)
     \<and> ats ! 0 = adj_time st \<and> ats ! length idxs = adj_time st'
     \<and> (\<forall>k<length idxs. time_segment_ok func tg odeint ans t go fp (idxs ! k) (cs ! k)
           (ats ! k) (ds ! k) (ats ! Suc k))"
  using assms
proof (induction idxs arbitrary: st)
  case Nil
  then show ?case by (auto intro: exI[of _ "[adj_time st]"])
next
  case (Cons i rest)
  from Cons.prems obtain st1 where
    seg: "grad_segment func tg odeint ans t go fp i st = Inr st1"
    and loop: "grad_loop func tg odeint ans t go fp rest st1 = Inr st'"
    by (auto simp: bindE_eq_Inr)
  from grad_segment_time[OF seg] obtain c d where
    c: "solver_calls st1 = solver_calls st @ [c]" "time_vjps st1 = time_vjps st @ [d]"
      "time_segment_ok func tg odeint ans t go fp i c (adj_time st) d (adj_time st1)"
    by blast
  from Cons.IH[OF loop] obtain cs ds ats where
    r: "solver_calls st' = solver_calls st1 @ cs" "time_vjps st' = time_vjps st1 @ ds"
      "length cs = length rest" "length ds = length rest" "length ats = Suc (length rest)"
      "ats ! 0 = adj_time st1" "ats ! length rest = adj_time st'"
      "\<forall>k<length rest. time_segment_ok func tg odeint ans t go fp (rest ! k) (cs ! k)
           (ats ! k) (ds ! k) (ats ! Suc k)"
    by blast
  have step: "time_segment_ok func tg odeint ans t go fp ((i # rest) ! k) ((c # cs) ! k)
           ((adj_time st # ats) ! k) ((d # ds) ! k) ((adj_time st # ats) ! Suc k)"
    if "k < length (i # rest)" for k
  proof (cases k)
    case 0
    with c(3) r(6) show ?thesis by simp
  next
    case (Suc j)
    with that have "j < length rest" by simp
    with r(8) Suc show ?thesis by simp
  qed
  show ?case
    apply (rule exI[of _ "c # cs"])
    apply (rule exI[of _ "d # ds"])
    apply (rule exI[of _ "adj_time st # ats"])
    using c(1,2) r(1-5,7) step by simp
qed

lemma tf_add_single:
  "t_shape a = [1] \<Longrightarrow> t_shape b = [1] \<Longrightarrow> t_vals a = [x] \<Longrightarrow> t_vals b = [y]
   \<Longrightarrow> \<exists>c. tf_add a b = Inr c \<and> t_shape c = [1] \<and> t_vals c = [x + y]"
  by (simp add: tf_add_def tf_binop_def broadcast_shape_same broadcast_data_def)

lemma dot_term_value:
  assumes "dot_term f g = Inr m"
  shows "t_shape m = [1] \<and> t_vals m = [dot_product f g]"
proof -
  from assms obtain row col p where
    row: "tf_reshape f [1, - 1] = Inr row" and col: "tf_reshape g [- 1, 1] = Inr col"
    and p: "tf_matmul row col = Inr p" and m: "tf_reshape p [1] = Inr m"
    by (auto simp: dot_term_def bindE_eq_Inr)
  from row have r: "t_shape row = [1, numel f]" "t_vals row = t_vals f"
    by (auto simp: tf_reshape_def Let_def split: if_splits)
  from col have c: "t_shape col = [numel g, 1]" "t_vals col = t_vals g"
    by (auto simp: tf_reshape_def Let_def split: if_splits)
  from p r c have "t_shape p = [1, 1]"
    "t_vals p = [sum_list (map (\<lambda>l. t_vals f ! l * t_vals g ! l) [0..<numel f])]"
    by (auto simp: tf_matmul_def split: if_splits)
  with m show ?thesis
    by (auto simp: tf_reshape_def Let_def dot_product_def split: if_splits)
qed

lemma foldl_add_value:
  assumes "foldl (\<lambda>acc y. bindE acc (\<lambda>a. tf_add a y)) (Inr a) ms = Inr d"
    and "t_shape a = [1]" "t_vals a = [x]"
    and "\<forall>m \<in> set ms. t_shape m = [1] \<and> length (t_vals m) = 1"
  shows "t_shape d = [1] \<and> t_vals d = [x + sum_list (map (\<lambda>m. hd (t_vals m)) ms)]"
  using assms
proof (induction ms arbitrary: a x)
  case Nil
  then show ?case by simp
next
  case (Cons m ms)
  from Cons.prems(4) obtain y where y: "t_shape m = [1]" "t_vals m = [y]"
    by (cases "t_vals m") auto
  from tf_add_single[OF Cons.prems(2) y(1) Cons.prems(3) y(2)] obtain c where
    c: "tf_add a m = Inr c" "t_shape c = [1]" "t_vals c = [x + y]" by blast
  from Cons.prems(1) c(1) have
    "foldl (\<lambda>acc y. bindE acc (\<lambda>a. tf_add a y)) (Inr c) ms = Inr d" by simp
  from Cons.IH[OF this c(2,3)] Cons.prems(4) y show ?case by (simp add: add.assoc)
qed

lemma dot_terms_sum:
  assumes "mapE (\<lambda>(f, g). dot_term f g) ps = Inr ms" and "py_sum ms = Inr d"
  shows "t_vals d = [sum_list (map (\<lambda>(f, g). dot_product f g) ps)]"
proof -
  have all: "list_all2 (\<lambda>p m. t_shape m = [1] \<and> t_vals m = [dot_product (fst p) (snd p)]) ps ms"
    using mapE_all2[OF assms(1)]
    by (rule list_all2_mono) (auto dest: dot_term_value)
  then have vals: "map (\<lambda>m. hd (t_vals m)) ms = map (\<lambda>(f, g). dot_product f g) ps"
    by (induction rule: list_all2_induct) (auto simp: case_prod_beta)
  from all have shapes: "\<forall>m \<in> set ms. t_shape m = [1] \<and> length (t_vals m) = 1"
    by (induction rule: list_all2_induct) auto
  show ?thesis
  proof (cases ms)
    case Nil
    with assms(2) vals show ?thesis
      by (auto simp: py_sum_def tf_scalar_def)
  next
    case (Cons m rest)
    with shapes obtain y where y: "t_shape m = [1]" "t_vals m = [y]"
      by (cases "t_vals m") auto
    from assms(2) Cons have
      "foldl (\<lambda>acc y. bindE acc (\<lambda>a. tf_add a y)) (Inr m) rest = Inr d"
      by (simp add: py_sum_def)
    from foldl_add_value[OF this y] shapes Cons
    have "t_vals d = [y + sum_list (map (\<lambda>m. hd (t_vals m)) rest)]" by simp
    with vals[symmetric] Cons y show ?thesis by simp
  qed
qed

lemma time_contribution_dot:
  assumes "time_contribution func t go i ans_i = Inr d"
  shows "\<exists>grad_output_i t_i raw func_i.
      mapE (\<lambda>g. tf_getitem g (int i)) go = Inr grad_output_i
    \<and> tf_getitem t (int i) = Inr t_i \<and> func t_i ans_i = Inr raw
    \<and> tf_unstack (cast_double raw) = Inr func_i
    \<and> t_vals d = [sum_list (map (\<lambda>(f, g). dot_product f g) (zip func_i grad_output_i))]"
  using assms
  by (auto simp: time_contribution_def bindE_eq_Inr dest: dot_terms_sum)

text \<open>
  Claim C2. When the backward pass returns, there are the contributions
  \<open>contribs ! (i - 1)\<close> for the output indices \<open>i\<close> from 1 to \<open>T - 1\<close> and the running
  adjoints of time \<open>running ! i\<close> on arrival at index \<open>i\<close>, starting from zero at
  \<open>T - 1\<close>, such that at every index \<open>i\<close>: the contribution is the sum over the state
  components of the dot products of \<open>func(t[i], ans[i])\<close> with the incoming gradient at
  \<open>i\<close>; it is subtracted from the running adjoint, and the difference enters the solver;
  the solver's result is the running adjoint at \<open>i - 1\<close>. The gradient returned for the
  time points is the concatenation of \<open>running ! 0\<close> and the contributions for the
  indices 1, 2, ..., \<open>T - 1\<close>, in this order.
\<close>

theorem adjoint_time_gradient:
  assumes run: "grad func tape_gradient odeint ans t grad_output variables = Inr res"
    and T: "n_outputs ans = Inr T"
  shows "\<exists>f_params contribs running.
      variables = Some f_params \<and> length contribs = T - 1 \<and> length running = Suc (T - 1)
    \<and> running ! (T - 1) = move_to_device (tf_scalar 0 (t_dtype t)) (t_device t)
    \<and> (\<forall>i. 1 \<le> i \<and> i < T \<longrightarrow>
         (\<exists>ans_i grad_output_i t_i raw func_i.
             mapE (\<lambda>a. tf_getitem a (int i)) ans = Inr ans_i
           \<and> mapE (\<lambda>g. tf_getitem g (int i)) grad_output = Inr grad_output_i
           \<and> tf_getitem t (int i) = Inr t_i \<and> func t_i ans_i = Inr raw
           \<and> tf_unstack (cast_double raw) = Inr func_i
           \<and> t_vals (contribs ! (i - 1)) =
               [sum_list (map (\<lambda>(f, g). dot_product f g) (zip func_i grad_output_i))])
         \<and> tf_sub (cast_double (running ! i)) (contribs ! (i - 1)) =
             Inr (adj_time_of_call (fst (odeint_calls res ! (T - 1 - i))))
         \<and> (\<exists>aug_ans adj_y1 adj_params1.
               odeint (augmented_dynamics func tape_gradient (length ans) f_params)
                 (fst (odeint_calls res ! (T - 1 - i))) (snd (odeint_calls res ! (T - 1 - i)))
                 = Inr aug_ans
             \<and> unpack_aug_ans (length ans) aug_ans = Inr (adj_y1, running ! (i - 1), adj_params1)))
    \<and> tf_concat (running ! 0 # contribs) = Inr (last (input_grads res))"
proof -
  from grad_run[OF run T] obtain vars adj_y0 st time_grads where
    v: "variables = Some vars"
    and loop: "grad_loop func tape_gradient odeint ans t grad_output vars (rev [1..<T])
         \<lparr>adj_y = adj_y0, adj_time = move_to_device (tf_scalar 0 (t_dtype t)) (t_device t),
          adj_params = tf_zeros_like (flatten vars), time_vjps = [], solver_calls = []\<rparr> = Inr st"
    and cat: "tf_concat (rev (time_vjps st @ [adj_time st])) = Inr time_grads"
    and res: "input_grads res = adj_y st @ [time_grads]" "odeint_calls res = solver_calls st"
    by blast
  from grad_loop_time[OF loop] obtain cs ds ats where
    l: "solver_calls st = cs" "time_vjps st = ds"
      "length cs = T - 1" "length ds = T - 1" "length ats = Suc (T - 1)"
      "ats ! 0 = move_to_device (tf_scalar 0 (t_dtype t)) (t_device t)"
      "ats ! (T - 1) = adj_time st"
    and segs: "\<forall>k<T - 1. time_segment_ok func tape_gradient odeint ans t grad_output vars
           (rev [1..<T] ! k) (cs ! k) (ats ! k) (ds ! k) (ats ! Suc k)"
    by auto
  let ?contribs = "rev ds" and ?running = "rev ats"
  have r0: "?running ! 0 = adj_time st"
    using l(5,7) by (simp add: rev_nth)
  have rT: "?running ! (T - 1) = move_to_device (tf_scalar 0 (t_dtype t)) (t_device t)"
    using l(5,6) by (simp add: rev_nth)
  have seg: "(\<exists>ans_i grad_output_i t_i raw func_i.
             mapE (\<lambda>a. tf_getitem a (int i)) ans = Inr ans_i
           \<and> mapE (\<lambda>g. tf_getitem g (int i)) grad_output = Inr grad_output_i
           \<and> tf_getitem t (int i) = Inr t_i \<and> func t_i ans_i = Inr raw
           \<and> tf_unstack (cast_double raw) = Inr func_i
           \<and> t_vals (?contribs ! (i - 1)) =
               [sum_list (map (\<lambda>(f, g). dot_product f g) (zip func_i grad_output_i))])
         \<and> tf_sub (cast_double (?running ! i)) (?contribs ! (i - 1)) =
             Inr (adj_time_of_call (fst (odeint_calls res ! (T - 1 - i))))
         \<and> (\<exists>aug_ans adj_y1 adj_params1.
               odeint (augmented_dynamics func tape_gradient (length ans) vars)
                 (fst (odeint_calls res ! (T - 1 - i))) (snd (odeint_calls res ! (T - 1 - i)))
                 = Inr aug_ans
             \<and> unpack_aug_ans (length ans) aug_ans = Inr (adj_y1, ?running ! (i - 1), adj_params1))"
    if i: "1 \<le> i" "i < T" for i
  proof -
    let ?k = "T - 1 - i"
    from i have k: "?k < T - 1" by simp
    have idx: "rev [1..<T] ! ?k = i"
      using rev_upt_nth[OF k] i by simp
    have c: "?contribs ! (i - 1) = ds ! ?k"
      using i l(4) by (simp add: rev_nth)
    have a: "?running ! i = ats ! ?k"
      using i l(5) by (simp add: rev_nth)
    have a': "?running ! (i - 1) = ats ! Suc ?k"
      using i l(5) by (simp add: rev_nth Suc_diff_Suc)
    from segs k idx have
      "time_segment_ok func tape_gradient odeint ans t grad_output vars i (cs ! ?k)
         (ats ! ?k) (ds ! ?k) (ats ! Suc ?k)" by auto
    then obtain ans_i aug_ans adj_y1 adj_params1 where
      s: "mapE (\<lambda>a. tf_getitem a (int i)) ans = Inr ans_i"
        "time_contribution func t grad_output i ans_i = Inr (ds ! ?k)"
        "tf_sub (cast_double (ats ! ?k)) (ds ! ?k) = Inr (adj_time_of_call (fst (cs ! ?k)))"
        "odeint (augmented_dynamics func tape_gradient (length ans) vars)
           (fst (cs ! ?k)) (snd (cs ! ?k)) = Inr aug_ans"
        "unpack_aug_ans (length ans) aug_ans = Inr (adj_y1, ats ! Suc ?k, adj_params1)"
      unfolding time_segment_ok_def by blast
    from time_contribution_dot[OF s(2)] s(1,3,4,5) show ?thesis
      unfolding c a a' res(2) l(1) by blast
  qed
  have "tf_concat (?running ! 0 # ?contribs) = Inr (last (input_grads res))"
    using cat res(1) l(2) r0 by simp
  with v l(4,5) rT seg show ?thesis
    by (intro exI[of _ vars] exI[of _ ?contribs] exI[of _ ?running]) simp
qed

theorem adjoint_time_gradient_witness:
  "grad (linear_func 1 1) (linear_tape 1) euler_odeint [vec [1, 2, 4]] (vec [0, 1 / 2, 1])
     [vec [0, 0, 1]] (Some [scalar64 1, scalar64 1]) = Inr demo_res
   \<and> (\<exists>contribs running. length contribs = 2 \<and> length running = 3
        \<and> tf_concat (running ! 0 # contribs) = Inr (vec [- 5, 0, 5]))"
  using adjoint_time_gradient[OF demo_grad demo_outputs] demo_grad
  by (auto simp: demo_res_def)

subsection \<open>Missing gradients and models without parameters\<close>

lemma map2_fill:
  "list_all2 (\<lambda>(v, leaf) out. fill_missing v leaf out) (zip vs leaves)
     (map2 (\<lambda>v leaf. case v of None \<Rightarrow> tf_zeros_like leaf | Some w \<Rightarrow> w) vs leaves)"
  by (induction vs leaves rule: list_induct2')
     (auto simp: fill_missing_def split: option.splits)

lemma demo_func: "linear_func 1 1 (scalar64 (1 / 2)) (take 1 demo_aug_state) = Inr (vec [3])"
  by (simp add: linear_func_def demo_aug_state_def scalar64_def tf_scalar_def vec_def)

lemma demo_unstack: "tf_unstack (cast_double (vec [3])) = Inr [scalar64 3]"
  by (simp add: tf_unstack_def cast_double_def vec_def tf_getitem_def py_index_def scalar64_def
        tf_scalar_def)

lemma demo_stack:
  "tf_stack (map tf_neg (take 1 (drop 1 demo_aug_state))) = Inr (vec [- (3 / 2)])"
  by (simp add: demo_aug_state_def tf_stack_def tf_neg_def scalar64_def tf_scalar_def vec_def)

lemma demo_tape:
  "linear_tape 1 (scalar64 (1 / 2)) (take 1 demo_aug_state) [scalar64 1, scalar64 1]
     (if length (t_shape (vec [- (3 / 2)])) < length (t_shape (cast_double (vec [3])))
      then tf_expand_dims0 (vec [- (3 / 2)]) else vec [- (3 / 2)])
   = None # [Some (scalar64 (- (3 / 2))), Some (scalar64 (- 3)), Some (scalar64 (- (3 / 2)))]"
  by (simp add: linear_tape_def demo_aug_state_def scalar64_def tf_scalar_def vec_def cast_double_def)

text \<open>
  Claim C3. Let the dynamics be evaluated and the output gradients be stacked in
  \<open>augmented_dynamics\<close>, and let the differentiation return a gradient, missing or not,
  for the time and for each further leaf. Whether \<open>augmented_dynamics\<close> raises does not
  depend on any of these gradients: it raises exactly when there is no trainable
  parameter. When it returns, it returns the evaluation of the dynamics, then for every
  state component its gradient or, where that is missing, \<open>zeros_like\<close> of the
  component, then the same for the time, then the flattened gradients of the parameters
  with \<open>zeros_like\<close> of the parameter where one is missing. \<open>zeros_like\<close> of a leaf has
  the shape and the dtype of the leaf, and all its values are 0.
\<close>

theorem missing_gradients_become_zeros:
  assumes "func t (take n_tensors y_aug) = Inr raw"
    and "tf_unstack (cast_double raw) = Inr func_eval"
    and "tf_stack (map tf_neg (take n_tensors (drop n_tensors y_aug))) = Inr stacked"
    and "tape_gradient t (take n_tensors y_aug) f_params
           (if length (t_shape stacked) < length (t_shape (cast_double raw))
            then tf_expand_dims0 stacked else stacked) = vjp_t # vjp_rest"
  shows "(isl (augmented_dynamics func tape_gradient n_tensors f_params t y_aug) \<longleftrightarrow> f_params = [])
    \<and> (f_params \<noteq> [] \<longrightarrow>
         (\<exists>out_y out_t filled.
            augmented_dynamics func tape_gradient n_tensors f_params t y_aug
              = Inr (func_eval @ out_y @ [out_t, flatten filled])
          \<and> fill_missing vjp_t t out_t
          \<and> list_all2 (\<lambda>(v, leaf) out. fill_missing v leaf out)
               (zip (take n_tensors vjp_rest) (take n_tensors y_aug)) out_y
          \<and> list_all2 (\<lambda>(v, leaf) out. fill_missing v leaf out)
               (zip (drop n_tensors vjp_rest) f_params) filled))
    \<and> t_shape (tf_zeros_like leaf) = t_shape leaf \<and> t_dtype (tf_zeros_like leaf) = t_dtype leaf
    \<and> t_vals (tf_zeros_like leaf) = replicate (numel leaf) 0"
proof -
  have z: "t_shape (tf_zeros_like leaf) = t_shape leaf \<and> t_dtype (tf_zeros_like leaf) = t_dtype leaf
    \<and> t_vals (tf_zeros_like leaf) = replicate (numel leaf) 0"
    by (simp add: tf_zeros_like_def)
  show ?thesis
  proof (cases "f_params = []")
    case True
    with assms z show ?thesis
      by (simp add: augmented_dynamics_def Let_def split: list.splits)
  next
    case False
    let ?out_y = "map2 (\<lambda>v leaf. case v of None \<Rightarrow> tf_zeros_like leaf | Some w \<Rightarrow> w)
                    (take n_tensors vjp_rest) (take n_tensors y_aug)"
    let ?out_t = "case vjp_t of None \<Rightarrow> tf_zeros_like t | Some v \<Rightarrow> v"
    let ?filled = "map2 (\<lambda>v leaf. case v of None \<Rightarrow> tf_zeros_like leaf | Some w \<Rightarrow> w)
                    (drop n_tensors vjp_rest) f_params"
    have run: "augmented_dynamics func tape_gradient n_tensors f_params t y_aug
              = Inr (func_eval @ ?out_y @ [?out_t, flatten ?filled])"
      using assms False
      by (simp add: augmented_dynamics_def Let_def flatten_convert_none_to_zeros_def)
    have "fill_missing vjp_t t ?out_t"
      by (simp add: fill_missing_def split: option.splits)
    with run False z map2_fill[of "take n_tensors vjp_rest" "take n_tensors y_aug"]
      map2_fill[of "drop n_tensors vjp_rest" f_params]
    show ?thesis by auto
  qed
qed

theorem missing_gradients_become_zeros_witness:
  "\<not> isl (augmented_dynamics (linear_func 1 1) (linear_tape 1) 1 [scalar64 1, scalar64 1]
          (scalar64 (1 / 2)) demo_aug_state)
   \<and> (\<exists>out_y filled.
        augmented_dynamics (linear_func 1 1) (linear_tape 1) 1 [scalar64 1, scalar64 1]
          (scalar64 (1 / 2)) demo_aug_state
          = Inr ([scalar64 3] @ out_y @ [tf_zeros_like (scalar64 (1 / 2)), flatten filled]))"
  using missing_gradients_become_zeros[where func = "linear_func 1 1"
      and tape_gradient = "linear_tape 1" and t = "scalar64 (1 / 2)" and n_tensors = 1
      and y_aug = demo_aug_state and f_params = "[scalar64 1, scalar64 1]"
      and leaf = "scalar64 (1 / 2)",
      OF demo_func demo_unstack demo_stack demo_tape]
  by (auto simp: fill_missing_def)

lemma demo_no_params:
  "grad (linear_func 1 1) (linear_tape 1) euler_odeint [vec [1, 2, 4]] (vec [0, 1 / 2, 1])
     [vec [0, 0, 1]] (Some []) = Inl AttributeError"
  by code_simp

lemma demo_no_variables:
  "grad (linear_func 1 1) (linear_tape 1) euler_odeint [vec [1, 2, 4]] (vec [0, 1 / 2, 1])
     [vec [0, 0, 1]] None = Inl TypeError"
  by (simp add: grad_def)

text \<open>
  Claim C4, as the code has it. With no trainable parameter \<open>augmented_dynamics\<close> never
  returns: whatever its arguments, it raises. So the backward pass over three output
  times of the linear model with an empty list of variables raises AttributeError at the
  first call of the solver, and with no \<open>variables\<close> at all it raises TypeError at once;
  no gradient for the parameters is returned in either case.
\<close>

theorem zero_parameters_raise:
  "isl (augmented_dynamics func tape_gradient n_tensors [] t y_aug)
   \<and> grad (linear_func 1 1) (linear_tape 1) euler_odeint [vec [1, 2, 4]] (vec [0, 1 / 2, 1])
       [vec [0, 0, 1]] (Some []) = Inl AttributeError
   \<and> grad (linear_func 1 1) (linear_tape 1) euler_odeint [vec [1, 2, 4]] (vec [0, 1 / 2, 1])
       [vec [0, 0, 1]] None = Inl TypeError"
  using demo_no_params demo_no_variables
  by (auto simp: augmented_dynamics_def Let_def bindE_def split: sum.splits list.splits)

end
